theory Spec2Isabelle
  imports Complex_Main
begin

section \<open>Data model of \<open>BaseRenderLayer.ts\<close>\<close>

text \<open>
  JavaScript numbers are IEEE 754 doubles. In the model the values that \<open>Math.ceil\<close>,
  \<open>Math.floor\<close> and \<open>Math.round\<close> return, cell coordinates, character codes and
  colour indices are \<open>int\<close>; measured sizes, the device pixel ratio and the line height
  option are \<open>real\<close>, read as the double nearest to them. The arithmetic of \<open>resize\<close>,
  whose results are cut to integers, rounds every result to a double (section
  ``JavaScript arithmetic''); the arguments of the context calls are kept as exact
  expressions. \<open>Math.round x\<close> is the nearest integer with ties towards plus infinity,
  which is \<open>round x = \<lfloor>x + 1/2\<rfloor>\<close> of HOL.
\<close>

type_synonym color = string

text \<open>\<open>IColorSet\<close> (imported from \<open>./Interfaces\<close>): the fields the layer reads.\<close>

record IColorSet =
  foreground :: color
  background :: color
  ansi :: "color list"

text \<open>\<open>ITerminal\<close> (imported from \<open>../Interfaces\<close>): the fields the layer reads,
  \<open>terminal.charMeasure.width/height\<close> and \<open>terminal.options.*\<close>.\<close>

record ICharMeasure =
  charMeasure_width :: real
  charMeasure_height :: real

record ITerminalOptions =
  lineHeight :: real
  fontSize :: real
  fontFamily :: string

record ITerminal =
  charMeasure :: ICharMeasure
  options :: ITerminalOptions

text \<open>The value held in \<open>_charAtlas: HTMLCanvasElement | ImageBitmap\<close>; objects are
  told apart by an identity. \<open>null\<close> is \<open>None\<close> of \<open>char_atlas option\<close>.\<close>

datatype char_atlas = HTMLCanvasElement nat | ImageBitmap nat

text \<open>What \<open>acquireCharAtlas\<close> returns: a canvas at once, or a promise of a bitmap.\<close>

datatype acquire_result = ResultCanvas nat | ResultPromise nat

text \<open>The calls made on the 2D context \<open>_ctx\<close>, in the order they are made. The font
  string \<open>`${size}px ${family}`\<close> is kept as its two components. An array read out of
  range is \<open>undefined\<close>, so a fill style is a \<open>color option\<close>.\<close>

datatype canvas_cmd =
    FillRect real real real real
  | ClearRect real real real real
  | StrokeRect real real real real
  | SetLineWidth real
  | SetFont real string
  | SetTextBaseline string
  | SetFillStyle "color option"
  | Save
  | Restore
  | BeginPath
  | Rect real real real real
  | Clip
  | FillText string real real
  | DrawImage "char_atlas option" real real real real real real real real

text \<open>What the module reads from outside the class: \<open>window.devicePixelRatio\<close>, and the
  two imports from \<open>./CharAtlas\<close>, which are parameters of the model.\<close>

record env =
  devicePixelRatio :: real
  CHAR_ATLAS_CELL_SPACING :: int
  acquireCharAtlas :: "ITerminal \<Rightarrow> IColorSet \<Rightarrow> int \<Rightarrow> int \<Rightarrow> acquire_result"

text \<open>
  The fields of a \<open>BaseRenderLayer\<close>. \<open>ctx\<close> is the log of calls on \<open>_ctx\<close>. Two
  fields record effects on the outside: \<open>acquired\<close> lists the argument tuples of the
  calls of \<open>acquireCharAtlas\<close>, and \<open>awaiting\<close> lists the promises on which
  \<open>_refreshCharAtlas\<close> has registered its \<open>then\<close> callback and that have not been
  resolved yet. The geometry fields are unassigned until the first \<open>resize\<close>; the record
  describes a layer whose fields hold numbers. The constructor, which only creates the
  canvas element and its context, and the abstract \<open>reset\<close> are not modelled.
\<close>

record layer =
  canvas_width :: int
  canvas_height :: int
  canvas_style_width :: real
  canvas_style_height :: real
  ctx :: "canvas_cmd list"
  colors :: IColorSet
  scaledCharWidth :: int
  scaledCharHeight :: int
  scaledLineHeight :: int
  scaledLineDrawY :: int
  charAtlas :: "char_atlas option"
  acquired :: "(ITerminal \<times> IColorSet \<times> int \<times> int) list"
  awaiting :: "nat list"

definition INVERTED_DEFAULT_COLOR :: int where
  "INVERTED_DEFAULT_COLOR = -1"

section \<open>JavaScript arithmetic\<close>

text \<open>
  Rounding to the nearest double, ties to even (the rounding of every arithmetic
  operation of JavaScript). A double is a multiple of its quantum of at most 53 bits:
  the quantum of \<open>x\<close> is \<open>2\<close> to the power \<open>binade x - 52\<close>, where the binade is the
  exponent of \<open>x\<close>, and \<open>- 1022\<close> for the subnormal numbers. The exponent has no upper
  bound here: a result of magnitude \<open>2^1024 - 2^970\<close> or more is \<open>Infinity\<close> in
  JavaScript and outside the model (\<open>finite_double\<close> says a number is below it).
\<close>

definition roundTiesToEven :: "real \<Rightarrow> int" where
  "roundTiesToEven y =
     (let f = \<lfloor>y\<rfloor>
      in if y - of_int f < 1 / 2 then f
         else if y - of_int f > 1 / 2 then f + 1
         else if even f then f else f + 1)"

definition binade :: "real \<Rightarrow> int" where
  "binade x = max \<lfloor>log 2 \<bar>x\<bar>\<rfloor> (- 1022)"

definition quantum :: "real \<Rightarrow> real" where
  "quantum x = 2 powr (of_int (binade x) - 52)"

definition double_round :: "real \<Rightarrow> real" where
  "double_round x =
     (if x = 0 then 0 else quantum x * of_int (roundTiesToEven (x / quantum x)))"

text \<open>\<open>x * y\<close> and \<open>x - y\<close> on numbers: the exact result of the operation on the two
  doubles, rounded.\<close>

definition js_times :: "real \<Rightarrow> real \<Rightarrow> real" where
  "js_times x y = double_round (double_round x * double_round y)"

definition js_minus :: "real \<Rightarrow> real \<Rightarrow> real" where
  "js_minus x y = double_round (double_round x - double_round y)"

definition finite_double :: "real \<Rightarrow> bool" where
  "finite_double x = (\<bar>x\<bar> < 2 ^ 1024 - 2 ^ 970)"

section \<open>Atlas refresh and resize\<close>

definition refreshCharAtlas :: "env \<Rightarrow> ITerminal \<Rightarrow> IColorSet \<Rightarrow> layer \<Rightarrow> layer" where
  "refreshCharAtlas E terminal colorSet s =
     (let s1 = s\<lparr>charAtlas := None\<rparr>;
          result = acquireCharAtlas E terminal (colors s1) (scaledCharWidth s1) (scaledCharHeight s1);
          s2 = s1\<lparr>acquired := acquired s1 @
                 [(terminal, colors s1, scaledCharWidth s1, scaledCharHeight s1)]\<rparr>
      in case result of
           ResultCanvas c \<Rightarrow> s2\<lparr>charAtlas := Some (HTMLCanvasElement c)\<rparr>
         | ResultPromise p \<Rightarrow> s2\<lparr>awaiting := awaiting s2 @ [p]\<rparr>)"

text \<open>The callback \<open>bitmap => this._charAtlas = bitmap\<close>, run when promise \<open>p\<close> is
  resolved with \<open>bitmap\<close>; a promise nobody waits for changes nothing.\<close>

definition promise_resolved :: "nat \<Rightarrow> nat \<Rightarrow> layer \<Rightarrow> layer" where
  "promise_resolved p bitmap s =
     (if p \<in> set (awaiting s)
      then s\<lparr>charAtlas := Some (ImageBitmap bitmap), awaiting := removeAll p (awaiting s)\<rparr>
      else s)"

definition onThemeChanged :: "env \<Rightarrow> ITerminal \<Rightarrow> IColorSet \<Rightarrow> layer \<Rightarrow> layer" where
  "onThemeChanged E terminal colorSet s = refreshCharAtlas E terminal colorSet s"

text \<open>In \<open>resize\<close> the difference of the two heights is halved: the quotient by 2 is the
  exact half, rounded.\<close>

definition resize :: "env \<Rightarrow> ITerminal \<Rightarrow> real \<Rightarrow> real \<Rightarrow> bool \<Rightarrow> layer \<Rightarrow> layer" where
  "resize E terminal canvasWidth canvasHeight charSizeChanged s =
     (let s1 = s\<lparr>scaledCharWidth :=
                   \<lceil>js_times (charMeasure_width (charMeasure terminal)) (devicePixelRatio E)\<rceil>\<rparr>;
          s2 = s1\<lparr>scaledCharHeight :=
                   \<lceil>js_times (charMeasure_height (charMeasure terminal)) (devicePixelRatio E)\<rceil>\<rparr>;
          s3 = s2\<lparr>scaledLineHeight :=
                   \<lfloor>js_times (of_int (scaledCharHeight s2)) (lineHeight (options terminal))\<rfloor>\<rparr>;
          s4 = s3\<lparr>scaledLineDrawY :=
                   (if lineHeight (options terminal) = 1 then 0
                    else round (double_round
                           (js_minus (of_int (scaledLineHeight s3)) (of_int (scaledCharHeight s3)) / 2)))\<rparr>;
          s5 = s4\<lparr>canvas_width := round (js_times canvasWidth (devicePixelRatio E)),
                  canvas_height := round (js_times canvasHeight (devicePixelRatio E)),
                  canvas_style_width := canvasWidth,
                  canvas_style_height := canvasHeight\<rparr>
      in if charSizeChanged then refreshCharAtlas E terminal (colors s5) s5 else s5)"

section \<open>Drawing primitives\<close>

text \<open>One call on \<open>_ctx\<close>: the call is appended to the log.\<close>

definition ctx_call :: "canvas_cmd \<Rightarrow> layer \<Rightarrow> layer" where
  "ctx_call c s = s\<lparr>ctx := ctx s @ [c]\<rparr>"

text \<open>Reading a JavaScript array at a number: \<open>undefined\<close> outside the array.\<close>

definition array_get :: "'a list \<Rightarrow> int \<Rightarrow> 'a option" where
  "array_get xs i = (if 0 \<le> i \<and> i < int (length xs) then Some (xs ! nat i) else None)"

definition fillCells :: "int \<Rightarrow> int \<Rightarrow> int \<Rightarrow> int \<Rightarrow> layer \<Rightarrow> layer" where
  "fillCells x y width height s =
     ctx_call (FillRect (real_of_int (x * scaledCharWidth s)) (real_of_int (y * scaledLineHeight s))
                        (real_of_int (width * scaledCharWidth s))
                        (real_of_int (height * scaledLineHeight s))) s"

text \<open>The parameter \<open>width\<close> has the default value 1 in the source; a caller of the
  model passes it.\<close>

definition fillBottomLineAtCells :: "env \<Rightarrow> int \<Rightarrow> int \<Rightarrow> int \<Rightarrow> layer \<Rightarrow> layer" where
  "fillBottomLineAtCells E x y width s =
     ctx_call (FillRect (real_of_int (x * scaledCharWidth s))
                        (real_of_int ((y + 1) * scaledLineHeight s) - devicePixelRatio E - 1)
                        (real_of_int (width * scaledCharWidth s))
                        (devicePixelRatio E)) s"

definition fillLeftLineAtCell :: "env \<Rightarrow> int \<Rightarrow> int \<Rightarrow> layer \<Rightarrow> layer" where
  "fillLeftLineAtCell E x y s =
     ctx_call (FillRect (real_of_int (x * scaledCharWidth s)) (real_of_int (y * scaledLineHeight s))
                        (devicePixelRatio E) (real_of_int (scaledLineHeight s))) s"

definition strokeRectAtCell :: "env \<Rightarrow> int \<Rightarrow> int \<Rightarrow> int \<Rightarrow> int \<Rightarrow> layer \<Rightarrow> layer" where
  "strokeRectAtCell E x y width height s =
     (let s1 = ctx_call (SetLineWidth (devicePixelRatio E)) s
      in ctx_call (StrokeRect
            (real_of_int (x * scaledCharWidth s1) + devicePixelRatio E / 2)
            (real_of_int (y * scaledLineHeight s1) + devicePixelRatio E / 2)
            (real_of_int (width * scaledCharWidth s1) - devicePixelRatio E)
            (real_of_int (height * scaledLineHeight s1) - devicePixelRatio E)) s1)"

definition clearAll :: "layer \<Rightarrow> layer" where
  "clearAll s = ctx_call (ClearRect 0 0 (real_of_int (canvas_width s)) (real_of_int (canvas_height s))) s"

definition clearCells :: "int \<Rightarrow> int \<Rightarrow> int \<Rightarrow> int \<Rightarrow> layer \<Rightarrow> layer" where
  "clearCells x y width height s =
     ctx_call (ClearRect (real_of_int (x * scaledCharWidth s)) (real_of_int (y * scaledLineHeight s))
                         (real_of_int (width * scaledCharWidth s))
                         (real_of_int (height * scaledLineHeight s))) s"

text \<open>\<open>CharData\<close> (imported from \<open>../Types\<close>): the two entries \<open>fillCharTrueColor\<close>
  reads, at \<open>CHAR_DATA_CHAR_INDEX\<close> and \<open>CHAR_DATA_WIDTH_INDEX\<close>.\<close>

record CharData =
  charData_char :: string
  charData_width :: int

definition fillCharTrueColor :: "env \<Rightarrow> ITerminal \<Rightarrow> CharData \<Rightarrow> int \<Rightarrow> int \<Rightarrow> layer \<Rightarrow> layer" where
  "fillCharTrueColor E terminal charData x y s =
     (let s1 = ctx_call (SetFont (fontSize (options terminal) * devicePixelRatio E)
                                 (fontFamily (options terminal))) s;
          s2 = ctx_call (SetTextBaseline ''top'') s1;
          s3 = ctx_call BeginPath s2;
          s4 = ctx_call (Rect (real_of_int (x * scaledCharWidth s3))
                              (real_of_int (y * scaledLineHeight s3 + scaledLineDrawY s3))
                              (real_of_int (charData_width charData * scaledCharWidth s3))
                              (real_of_int (scaledCharHeight s3))) s3;
          s5 = ctx_call Clip s4
      in ctx_call (FillText (charData_char charData) (real_of_int (x * scaledCharWidth s5))
                            (real_of_int (y * scaledCharHeight s5))) s5)"

section \<open>Drawing a character\<close>

definition drawUncachedChar ::
  "env \<Rightarrow> ITerminal \<Rightarrow> string \<Rightarrow> int \<Rightarrow> int \<Rightarrow> int \<Rightarrow> int \<Rightarrow> layer \<Rightarrow> layer" where
  "drawUncachedChar E terminal char width fg x y s =
     (let s1 = ctx_call Save s;
          s2 = ctx_call (SetFont (fontSize (options terminal) * devicePixelRatio E)
                                 (fontFamily (options terminal))) s1;
          s3 = ctx_call (SetTextBaseline ''top'') s2;
          s4 = (if fg = INVERTED_DEFAULT_COLOR
                then ctx_call (SetFillStyle (Some (background (colors s3)))) s3
                else if fg < 256
                then ctx_call (SetFillStyle (array_get (ansi (colors s3)) fg)) s3
                else ctx_call (SetFillStyle (Some (foreground (colors s3)))) s3);
          s5 = ctx_call BeginPath s4;
          s6 = ctx_call (Rect (real_of_int (x * scaledCharWidth s5))
                              (real_of_int (y * scaledLineHeight s5 + scaledLineDrawY s5))
                              (real_of_int (width * scaledCharWidth s5))
                              (real_of_int (scaledCharHeight s5))) s5;
          s7 = ctx_call Clip s6;
          s8 = ctx_call (FillText char (real_of_int (x * scaledCharWidth s7))
                                  (real_of_int (y * scaledLineHeight s7 + scaledLineDrawY s7))) s7
      in ctx_call Restore s8)"

text \<open>The local \<open>colorIndex\<close> of \<open>drawChar\<close> and its three flags, as functions of the
  arguments they are computed from.\<close>

definition colorIndex :: "int \<Rightarrow> bool \<Rightarrow> int" where
  "colorIndex fg bold = (if fg < 256 then fg + 2 else if bold then 1 else 0)"

definition isAscii :: "int \<Rightarrow> bool" where
  "isAscii code = (code < 256)"

definition isBasicColor :: "int \<Rightarrow> bool \<Rightarrow> bool" where
  "isBasicColor fg bold = (colorIndex fg bold > 1 \<and> fg < 16)"

definition isDefaultColor :: "int \<Rightarrow> bool" where
  "isDefaultColor fg = (fg \<ge> 256)"

text \<open>\<open>drawImage\<close> is called with whatever \<open>_charAtlas\<close> holds, \<open>null\<close> included: the
  source has no test of the field.\<close>

definition drawChar ::
  "env \<Rightarrow> ITerminal \<Rightarrow> string \<Rightarrow> int \<Rightarrow> int \<Rightarrow> int \<Rightarrow> int \<Rightarrow> int \<Rightarrow> bool \<Rightarrow> layer \<Rightarrow> layer" where
  "drawChar E terminal char code width x y fg bold s =
     (let s1 = (if width = 2 then clearCells (x + 1) y 1 1 s else s)
      in if isAscii code \<and> (isBasicColor fg bold \<or> isDefaultColor fg)
         then (let charAtlasCellWidth = scaledCharWidth s1 + CHAR_ATLAS_CELL_SPACING E;
                   charAtlasCellHeight = scaledCharHeight s1 + CHAR_ATLAS_CELL_SPACING E
               in ctx_call (DrawImage (charAtlas s1)
                     (real_of_int (code * charAtlasCellWidth))
                     (real_of_int (colorIndex fg bold * charAtlasCellHeight))
                     (real_of_int (scaledCharWidth s1)) (real_of_int (scaledCharHeight s1))
                     (real_of_int (x * scaledCharWidth s1))
                     (real_of_int (y * scaledLineHeight s1 + scaledLineDrawY s1))
                     (real_of_int (scaledCharWidth s1)) (real_of_int (scaledCharHeight s1))) s1)
         else drawUncachedChar E terminal char width fg x y s1)"

section \<open>Hooks with an empty body\<close>

definition onOptionsChanged :: "ITerminal \<Rightarrow> layer \<Rightarrow> layer" where
  "onOptionsChanged terminal s = s"

definition onBlur :: "ITerminal \<Rightarrow> layer \<Rightarrow> layer" where
  "onBlur terminal s = s"

definition onFocus :: "ITerminal \<Rightarrow> layer \<Rightarrow> layer" where
  "onFocus terminal s = s"

definition onCursorMove :: "ITerminal \<Rightarrow> layer \<Rightarrow> layer" where
  "onCursorMove terminal s = s"

definition onGridChanged :: "ITerminal \<Rightarrow> int \<Rightarrow> int \<Rightarrow> layer \<Rightarrow> layer" where
  "onGridChanged terminal startRow endRow s = s"

definition onSelectionChanged :: "ITerminal \<Rightarrow> int \<times> int \<Rightarrow> int \<times> int \<Rightarrow> layer \<Rightarrow> layer" where
  "onSelectionChanged terminal start end' s = s"

section \<open>Runs of the layer\<close>

text \<open>Everything that can happen to a layer: a call of one of its methods, or the
  resolution of a promise it waits for. Each event comes with the environment it runs
  in, since \<open>window.devicePixelRatio\<close> and the answers of \<open>acquireCharAtlas\<close> may change
  between events.\<close>

datatype event =
    OnOptionsChanged ITerminal
  | OnBlur ITerminal
  | OnFocus ITerminal
  | OnCursorMove ITerminal
  | OnGridChanged ITerminal int int
  | OnSelectionChanged ITerminal "int \<times> int" "int \<times> int"
  | OnThemeChanged ITerminal IColorSet
  | Resize ITerminal real real bool
  | FillCells int int int int
  | FillBottomLineAtCells int int int
  | FillLeftLineAtCell int int
  | StrokeRectAtCell int int int int
  | ClearAll
  | ClearCells int int int int
  | FillCharTrueColor ITerminal CharData int int
  | DrawChar ITerminal string int int int int int bool
  | PromiseResolved nat nat

fun step :: "env \<Rightarrow> event \<Rightarrow> layer \<Rightarrow> layer" where
  "step E (OnOptionsChanged t) s = onOptionsChanged t s"
| "step E (OnBlur t) s = onBlur t s"
| "step E (OnFocus t) s = onFocus t s"
| "step E (OnCursorMove t) s = onCursorMove t s"
| "step E (OnGridChanged t a b) s = onGridChanged t a b s"
| "step E (OnSelectionChanged t a b) s = onSelectionChanged t a b s"
| "step E (OnThemeChanged t c) s = onThemeChanged E t c s"
| "step E (Resize t w h b) s = resize E t w h b s"
| "step E (FillCells x y w h) s = fillCells x y w h s"
| "step E (FillBottomLineAtCells x y w) s = fillBottomLineAtCells E x y w s"
| "step E (FillLeftLineAtCell x y) s = fillLeftLineAtCell E x y s"
| "step E (StrokeRectAtCell x y w h) s = strokeRectAtCell E x y w h s"
| "step E ClearAll s = clearAll s"
| "step E (ClearCells x y w h) s = clearCells x y w h s"
| "step E (FillCharTrueColor t cd x y) s = fillCharTrueColor E t cd x y s"
| "step E (DrawChar t c code w x y fg bold) s = drawChar E t c code w x y fg bold s"
| "step E (PromiseResolved p bitmap) s = promise_resolved p bitmap s"

fun run :: "(env \<times> event) list \<Rightarrow> layer \<Rightarrow> layer" where
  "run [] s = s"
| "run ((E, e) # es) s = run es (step E e s)"

section \<open>Observing a run\<close>

text \<open>The calls on \<open>_ctx\<close> that were made between state \<open>s\<close> and a later state \<open>s'\<close>.\<close>

definition issued :: "layer \<Rightarrow> layer \<Rightarrow> canvas_cmd list" where
  "issued s s' = drop (length (ctx s)) (ctx s')"

fun is_DrawImage :: "canvas_cmd \<Rightarrow> bool" where
  "is_DrawImage (DrawImage a sx sy sw sh dx dy dw dh) = True"
| "is_DrawImage _ = False"

fun is_FillText :: "canvas_cmd \<Rightarrow> bool" where
  "is_FillText (FillText c x y) = True"
| "is_FillText _ = False"

fun is_ClearRect :: "canvas_cmd \<Rightarrow> bool" where
  "is_ClearRect (ClearRect x y w h) = True"
| "is_ClearRect _ = False"

text \<open>Events that assign \<open>_charAtlas\<close>: a refresh (theme change, resize with changed
  character size) and the callback of a resolved promise.\<close>

fun assigns_atlas :: "event \<Rightarrow> bool" where
  "assigns_atlas (OnThemeChanged t c) = True"
| "assigns_atlas (Resize t w h b) = b"
| "assigns_atlas (PromiseResolved p bitmap) = True"
| "assigns_atlas _ = False"

text \<open>The geometry invariant, and the resizes it is claimed for: a line height option
  of at least 1 and a measured character height that is not negative.\<close>

definition geometry_ok :: "layer \<Rightarrow> bool" where
  "geometry_ok s = (scaledCharHeight s \<le> scaledLineHeight s)"

fun resize_ok :: "env \<times> event \<Rightarrow> bool" where
  "resize_ok (E, Resize t w h b) =
     (1 \<le> lineHeight (options t) \<and> 0 \<le> charMeasure_height (charMeasure t) * devicePixelRatio E)"
| "resize_ok _ = True"

section \<open>The specification's wording of the glyph renderer\<close>

text \<open>The colour slot and the eligibility for the atlas as the specification words
  them; slots 2 to 17 are the slots of the 16 basic colours.\<close>

definition spec_colorSlot :: "int \<Rightarrow> bool \<Rightarrow> int" where
  "spec_colorSlot fg bold = (if fg < 256 then fg + 2 else if fg \<ge> 256 \<and> bold then 1 else 0)"

definition spec_basic_slot :: "int \<Rightarrow> bool" where
  "spec_basic_slot k = (2 \<le> k \<and> k \<le> 17)"

definition spec_atlas_eligible :: "int \<Rightarrow> int \<Rightarrow> bool \<Rightarrow> bool" where
  "spec_atlas_eligible code fg bold =
     (code < 256 \<and> ((spec_basic_slot (spec_colorSlot fg bold) \<and> fg < 16) \<or> fg \<ge> 256))"

section \<open>Concrete inputs\<close>

definition demo_colors :: IColorSet where
  "demo_colors = \<lparr>foreground = ''#ffffff'', background = ''#000000'',
                   ansi = [''#2e3436'', ''#cc0000'', ''#4e9a06'', ''#c4a000'',
                           ''#3465a4'', ''#75507b'', ''#06989a'', ''#d3d7cf'']\<rparr>"

definition light_colors :: IColorSet where
  "light_colors = \<lparr>foreground = ''#000000'', background = ''#ffffff'',
                    ansi = [''#2e3436'', ''#cc0000'', ''#4e9a06'', ''#c4a000'',
                            ''#3465a4'', ''#75507b'', ''#06989a'', ''#d3d7cf'']\<rparr>"

definition demo_terminal :: ITerminal where
  "demo_terminal = \<lparr>charMeasure = \<lparr>charMeasure_width = 72 / 10, charMeasure_height = 15\<rparr>,
                     options = \<lparr>lineHeight = 3 / 2, fontSize = 15, fontFamily = ''courier''\<rparr>\<rparr>"

text \<open>An environment in which \<open>acquireCharAtlas\<close> answers with promise \<open>p\<close>, and one in
  which it answers with canvas \<open>c\<close> at once.\<close>

definition pending_env :: "nat \<Rightarrow> env" where
  "pending_env p = \<lparr>devicePixelRatio = 2, CHAR_ATLAS_CELL_SPACING = 1,
                     acquireCharAtlas = (\<lambda>t c w h. ResultPromise p)\<rparr>"

definition ready_env :: "nat \<Rightarrow> env" where
  "ready_env c = \<lparr>devicePixelRatio = 2, CHAR_ATLAS_CELL_SPACING = 1,
                   acquireCharAtlas = (\<lambda>t c' w h. ResultCanvas c)\<rparr>"

text \<open>A layer as \<open>resize\<close> leaves it for \<open>demo_terminal\<close> at pixel ratio 2, holding the
  atlas \<open>a\<close>.\<close>

definition demo_layer :: "char_atlas option \<Rightarrow> layer" where
  "demo_layer a = \<lparr>canvas_width = 1600, canvas_height = 1200,
                    canvas_style_width = 800, canvas_style_height = 600,
                    ctx = [], colors = demo_colors,
                    scaledCharWidth = 15, scaledCharHeight = 30,
                    scaledLineHeight = 45, scaledLineDrawY = 8,
                    charAtlas = a, acquired = [], awaiting = []\<rparr>"

text \<open>No number that \<open>resize\<close> computes for the geometry overflows: the four numbers
  read and the exact result of each operation are below the overflow threshold.\<close>

definition resize_finite :: "env \<Rightarrow> ITerminal \<Rightarrow> bool" where
  "resize_finite E t =
     (finite_double (charMeasure_width (charMeasure t))
      \<and> finite_double (charMeasure_height (charMeasure t))
      \<and> finite_double (devicePixelRatio E)
      \<and> finite_double (lineHeight (options t))
      \<and> finite_double (double_round (charMeasure_width (charMeasure t)) * double_round (devicePixelRatio E))
      \<and> finite_double (double_round (charMeasure_height (charMeasure t)) * double_round (devicePixelRatio E))
      \<and> finite_double
           (of_int \<lceil>js_times (charMeasure_height (charMeasure t)) (devicePixelRatio E)\<rceil>
            * double_round (lineHeight (options t)))
      \<and> finite_double
           (of_int \<lfloor>js_times
                      (of_int \<lceil>js_times (charMeasure_height (charMeasure t)) (devicePixelRatio E)\<rceil>)
                      (lineHeight (options t))\<rfloor>
            - of_int \<lceil>js_times (charMeasure_height (charMeasure t)) (devicePixelRatio E)\<rceil>))"

text \<open>A terminal whose line height 1.4 is not a double: at pixel ratio 2 the exact
  product \<open>30 * 1.4\<close> of the double nearest to 1.4 is below 42 and rounds to 42.\<close>

definition decimal_terminal :: ITerminal where
  "decimal_terminal = \<lparr>charMeasure = \<lparr>charMeasure_width = 72 / 10, charMeasure_height = 15\<rparr>,
                        options = \<lparr>lineHeight = 14 / 10, fontSize = 15, fontFamily = ''courier''\<rparr>\<rparr>"

text \<open>The four geometry fields together (the spec's CellGeometry).\<close>

definition CellGeometry :: "layer \<Rightarrow> int \<times> int \<times> int \<times> int" where
  "CellGeometry s = (scaledCharWidth s, scaledCharHeight s, scaledLineHeight s, scaledLineDrawY s)"

section \<open>Helper facts\<close>

lemma refreshCharAtlas_geometry:
  "scaledCharWidth (refreshCharAtlas E t c s) = scaledCharWidth s"
  "scaledCharHeight (refreshCharAtlas E t c s) = scaledCharHeight s"
  "scaledLineHeight (refreshCharAtlas E t c s) = scaledLineHeight s"
  "scaledLineDrawY (refreshCharAtlas E t c s) = scaledLineDrawY s"
  by (simp_all add: refreshCharAtlas_def Let_def split: acquire_result.split)

lemma resize_scaledCharWidth:
  "scaledCharWidth (resize E t w h b s) = \<lceil>js_times (charMeasure_width (charMeasure t)) (devicePixelRatio E)\<rceil>"
  by (simp add: resize_def Let_def refreshCharAtlas_geometry)

lemma resize_scaledCharHeight:
  "scaledCharHeight (resize E t w h b s) = \<lceil>js_times (charMeasure_height (charMeasure t)) (devicePixelRatio E)\<rceil>"
  by (simp add: resize_def Let_def refreshCharAtlas_geometry)

lemma resize_scaledLineHeight:
  "scaledLineHeight (resize E t w h b s) =
     \<lfloor>js_times (of_int \<lceil>js_times (charMeasure_height (charMeasure t)) (devicePixelRatio E)\<rceil>)
               (lineHeight (options t))\<rfloor>"
  by (simp add: resize_def Let_def refreshCharAtlas_geometry)

lemma resize_scaledLineDrawY:
  "scaledLineDrawY (resize E t w h b s) =
     (if lineHeight (options t) = 1 then 0
      else round (double_round
             (js_minus (of_int (scaledLineHeight (resize E t w h b s)))
                       (of_int (scaledCharHeight (resize E t w h b s))) / 2)))"
  by (simp add: resize_def Let_def refreshCharAtlas_geometry)

text \<open>Facts about rounding to a double.\<close>

lemma roundTiesToEven_of_int: "roundTiesToEven (of_int k) = k"
  by (simp add: roundTiesToEven_def)

lemma roundTiesToEven_lower: "\<lfloor>y\<rfloor> \<le> roundTiesToEven y"
  by (simp add: roundTiesToEven_def Let_def)

lemma roundTiesToEven_upper: "roundTiesToEven y \<le> \<lceil>y\<rceil>"
  unfolding roundTiesToEven_def Let_def
  by (auto simp: ceiling_altdef)

lemma roundTiesToEven_mono:
  assumes "x \<le> y"
  shows "roundTiesToEven x \<le> roundTiesToEven y"
proof (cases "\<lfloor>x\<rfloor> = \<lfloor>y\<rfloor>")
  case True
  with assms show ?thesis
    by (auto simp: roundTiesToEven_def Let_def)
next
  case False
  with assms have "\<lfloor>x\<rfloor> < \<lfloor>y\<rfloor>" by (simp add: floor_mono order.not_eq_order_implies_strict)
  then have "\<lfloor>x\<rfloor> + 1 \<le> \<lfloor>y\<rfloor>" by simp
  moreover have "roundTiesToEven x \<le> \<lfloor>x\<rfloor> + 1"
    by (simp add: roundTiesToEven_def Let_def)
  ultimately show ?thesis using roundTiesToEven_lower [of y] by linarith
qed

lemma roundTiesToEven_minus: "roundTiesToEven (- y) = - roundTiesToEven y"
proof (cases "y = of_int \<lfloor>y\<rfloor>")
  case True
  then obtain k where "y = of_int k" ..
  then show ?thesis
    by (metis of_int_minus roundTiesToEven_of_int)
next
  case False
  then have f: "\<lfloor>- y\<rfloor> = - \<lfloor>y\<rfloor> - 1"
    by (metis ceiling_altdef ceiling_def floor_minus minus_diff_eq diff_minus_eq_add add.commute minus_add_distrib uminus_add_conv_diff)
  show ?thesis
    unfolding roundTiesToEven_def Let_def f
    by (auto simp: algebra_simps)
qed


lemma quantum_pos: "0 < quantum x"
  by (simp add: quantum_def)

lemma binade_minus: "binade (- x) = binade x"
  by (simp add: binade_def)

lemma quantum_minus: "quantum (- x) = quantum x"
  by (simp add: quantum_def binade_minus)

lemma double_round_minus: "double_round (- x) = - double_round x"
  by (simp add: double_round_def quantum_minus roundTiesToEven_minus)

lemma double_round_nonneg:
  assumes "0 \<le> x"
  shows "0 \<le> double_round x"
proof -
  have "0 \<le> x / quantum x" using assms quantum_pos [of x] by simp
  then have "0 \<le> \<lfloor>x / quantum x\<rfloor>" by simp
  then have "0 \<le> roundTiesToEven (x / quantum x)"
    using roundTiesToEven_lower [of "x / quantum x"] by linarith
  then show ?thesis
    using quantum_pos [of x] by (simp add: double_round_def)
qed

lemma below_next_binade:
  assumes "0 < x"
  shows "x < 2 powr (of_int (binade x) + 1)"
proof -
  have "log 2 x < of_int \<lfloor>log 2 x\<rfloor> + 1" by linarith
  also have "\<dots> \<le> of_int (binade x) + 1" using assms by (simp add: binade_def)
  finally show ?thesis using assms by (simp add: log_less_iff)
qed

lemma above_binade:
  assumes "0 < x" and "- 1022 < binade x"
  shows "2 powr of_int (binade x) \<le> x"
proof -
  from assms have "binade x = \<lfloor>log 2 x\<rfloor>" by (simp add: binade_def max_def split: if_splits)
  then have "of_int (binade x) \<le> log 2 x" by simp
  then show ?thesis using assms(1) by (simp add: le_log_iff)
qed

lemma quantum_times: "quantum x * 2 ^ 52 = 2 powr of_int (binade x)"
  by (simp add: quantum_def powr_diff)

lemma quantum_times': "quantum x * 2 ^ 53 = 2 powr (of_int (binade x) + 1)"
  by (simp add: quantum_def powr_diff powr_add)

lemma double_round_upper:
  assumes "0 < x"
  shows "double_round x \<le> 2 powr (of_int (binade x) + 1)"
proof -
  have "x / quantum x \<le> 2 ^ 53"
    using below_next_binade [OF assms] quantum_pos [of x]
    by (simp add: pos_divide_le_eq flip: quantum_times' mult.commute)
  then have "roundTiesToEven (x / quantum x) \<le> roundTiesToEven (of_int (2 ^ 53))"
    by (intro roundTiesToEven_mono) simp
  then have "roundTiesToEven (x / quantum x) \<le> 2 ^ 53"
    by (simp only: roundTiesToEven_of_int)
  then have "real_of_int (roundTiesToEven (x / quantum x)) \<le> 2 ^ 53"
    by (metis of_int_le_iff of_int_numeral of_int_power)
  then have "quantum x * of_int (roundTiesToEven (x / quantum x)) \<le> quantum x * 2 ^ 53"
    using quantum_pos [of x] by (simp only: mult_le_cancel_left_pos)
  then show ?thesis using assms by (simp only: double_round_def quantum_times' if_False less_imp_neq [THEN not_sym])
qed

lemma double_round_lower:
  assumes "0 < x" and "- 1022 < binade x"
  shows "2 powr of_int (binade x) \<le> double_round x"
proof -
  have "2 ^ 52 \<le> x / quantum x"
    using above_binade [OF assms] quantum_pos [of x]
    by (simp add: pos_le_divide_eq flip: quantum_times mult.commute)
  then have "roundTiesToEven (of_int (2 ^ 52)) \<le> roundTiesToEven (x / quantum x)"
    by (intro roundTiesToEven_mono) simp
  then have "2 ^ 52 \<le> roundTiesToEven (x / quantum x)"
    by (simp only: roundTiesToEven_of_int)
  then have "2 ^ 52 \<le> real_of_int (roundTiesToEven (x / quantum x))"
    by (metis of_int_le_iff of_int_numeral of_int_power)
  then have "quantum x * 2 ^ 52 \<le> quantum x * of_int (roundTiesToEven (x / quantum x))"
    using quantum_pos [of x] by (simp only: mult_le_cancel_left_pos)
  then show ?thesis using assms by (simp only: double_round_def quantum_times if_False less_imp_neq [THEN not_sym])
qed

lemma binade_mono:
  assumes "0 < x" and "x \<le> y"
  shows "binade x \<le> binade y"
proof -
  from assms have "log 2 x \<le> log 2 y" by simp
  then have "\<lfloor>log 2 x\<rfloor> \<le> \<lfloor>log 2 y\<rfloor>" by (rule floor_mono)
  with assms show ?thesis by (simp add: binade_def)
qed

lemma double_round_mono_pos:
  assumes "0 < x" and "x \<le> y"
  shows "double_round x \<le> double_round y"
proof (cases "binade x = binade y")
  case True
  then have q: "quantum x = quantum y" by (simp add: quantum_def)
  have "x / quantum y \<le> y / quantum y"
    using assms(2) quantum_pos [of y] by (simp add: divide_right_mono)
  then have "roundTiesToEven (x / quantum y) \<le> roundTiesToEven (y / quantum y)"
    by (rule roundTiesToEven_mono)
  then have "quantum y * of_int (roundTiesToEven (x / quantum y))
               \<le> quantum y * of_int (roundTiesToEven (y / quantum y))"
    using quantum_pos [of y] by simp
  with assms show ?thesis by (simp add: double_round_def q)
next
  case False
  with binade_mono [OF assms] have lt: "binade x < binade y" by simp
  from assms have y: "0 < y" by simp
  have "- 1022 \<le> binade x" by (simp add: binade_def)
  with lt have "- 1022 < binade y" by simp
  then have low: "2 powr of_int (binade y) \<le> double_round y"
    using y by (intro double_round_lower)
  from lt have "of_int (binade x) + 1 \<le> (of_int (binade y) :: real)" by linarith
  then have "(2::real) powr (of_int (binade x) + 1) \<le> 2 powr of_int (binade y)"
    by (intro powr_mono) simp_all
  with double_round_upper [OF assms(1)] low show ?thesis by linarith
qed

lemma double_round_mono_nonneg:
  assumes "0 \<le> x" and "x \<le> y"
  shows "double_round x \<le> double_round y"
proof (cases "x = 0")
  case True
  with assms double_round_nonneg [of y] show ?thesis by (simp add: double_round_def)
next
  case False
  with assms show ?thesis by (intro double_round_mono_pos) simp_all
qed

lemma double_round_fix:
  assumes "x = quantum x * of_int k"
  shows "double_round x = x"
proof (cases "x = 0")
  case True
  then show ?thesis by (simp add: double_round_def)
next
  case False
  have "x / quantum x = of_int k"
    using assms quantum_pos [of x] by (metis less_numeral_extra(3) nonzero_mult_div_cancel_left)
  then have "roundTiesToEven (x / quantum x) = k" by (simp only: roundTiesToEven_of_int)
  with assms False show ?thesis by (simp add: double_round_def)
qed


lemma binade_eqI:
  assumes "0 < v" and "v < 2 powr (of_int e + 1)" and "- 1022 \<le> e"
    and "- 1022 < e \<Longrightarrow> 2 powr of_int e \<le> v"
  shows "binade v = e"
proof (cases "- 1022 < e")
  case True
  with assms have "\<lfloor>log 2 v\<rfloor> = e" by (simp add: floor_log_eq_powr_iff)
  with True show ?thesis using assms(1) by (simp add: binade_def)
next
  case False
  with assms(3) have e: "e = - 1022" by simp
  from assms(1,2) have "log 2 v < of_int e + 1" by (simp add: log_less_iff)
  then have "\<lfloor>log 2 v\<rfloor> < e + 1" by (simp only: floor_less_iff of_int_add of_int_1)
  with e show ?thesis using assms(1) by (simp add: binade_def)
qed

lemma binade_powr:
  assumes "- 1022 \<le> e"
  shows "binade (2 powr of_int e) = e"
  using assms by (simp add: binade_def)

lemma double_round_idem_pos:
  assumes "0 < a"
  shows "double_round (double_round a) = double_round a"
proof -
  let ?v = "double_round a"
  let ?e = "binade a"
  let ?k = "roundTiesToEven (a / quantum a)"
  have v: "?v = quantum a * of_int ?k" using assms by (simp add: double_round_def)
  have e: "- 1022 \<le> ?e" by (simp add: binade_def)
  have nonneg: "0 \<le> ?v" using assms by (intro double_round_nonneg) simp
  show ?thesis
  proof (cases "?v = 0")
    case True
    then show ?thesis by (simp add: double_round_def)
  next
    case False
    with nonneg have pos: "0 < ?v" by simp
    show ?thesis
    proof (cases "?v = 2 powr (of_int ?e + 1)")
      case True
      have "binade ?v = ?e + 1"
        using binade_powr [of "?e + 1"] e True by simp
      then have "quantum ?v * 2 ^ 52 = ?v"
        using quantum_times [of ?v] True by simp
      then have "?v = quantum ?v * of_int (2 ^ 52)" by simp
      then show ?thesis by (rule double_round_fix)
    next
      case False
      with double_round_upper [OF assms] have lt: "?v < 2 powr (of_int ?e + 1)" by simp
      have "binade ?v = ?e"
        using pos lt e double_round_lower [OF assms] by (intro binade_eqI) simp_all
      then have "quantum ?v = quantum a" by (simp add: quantum_def)
      with v have "?v = quantum ?v * of_int ?k" by simp
      then show ?thesis by (rule double_round_fix)
    qed
  qed
qed

lemma double_round_idem: "double_round (double_round a) = double_round a"
proof -
  consider "0 < a" | "a = 0" | "0 < - a" by linarith
  then show ?thesis
  proof cases
    case 1
    then show ?thesis by (rule double_round_idem_pos)
  next
    case 2
    then show ?thesis by (simp add: double_round_def)
  next
    case 3
    from double_round_idem_pos [OF 3] show ?thesis
      by (simp add: double_round_minus)
  qed
qed

lemma double_round_of_int_small:
  assumes "0 \<le> n" and "n \<le> 2 ^ 53"
  shows "double_round (of_int n) = of_int n"
proof (cases "n = 0")
  case True
  then show ?thesis by (simp add: double_round_def)
next
  case False
  let ?x = "real_of_int n"
  from False assms have n1: "1 \<le> n" by simp
  then have x1: "1 \<le> ?x" and pos: "0 < ?x" by simp_all
  have "0 \<le> log 2 ?x" using x1 by simp
  then have fl0: "0 \<le> \<lfloor>log 2 ?x\<rfloor>" by simp
  have "binade ?x = max \<lfloor>log 2 ?x\<rfloor> (- 1022)" using pos by (simp add: binade_def)
  with fl0 have b: "binade ?x = \<lfloor>log 2 ?x\<rfloor>" by linarith
  with fl0 have b0: "0 \<le> binade ?x" by simp
  have "?x \<le> 2 ^ 53" using assms(2) by (metis of_int_le_iff of_int_numeral of_int_power)
  then have x53: "?x \<le> 2 powr 53" by simp
  then have "log 2 ?x \<le> 53" using pos by (simp add: log_le_iff)
  then have b53: "binade ?x \<le> 53" unfolding b by (simp add: floor_le_iff)
  show ?thesis
  proof (cases "binade ?x = 53")
    case True
    then have "2 powr 53 \<le> ?x" using above_binade [OF pos] by simp
    with x53 have "?x = 2 powr 53" by simp
    moreover have "quantum ?x * 2 ^ 52 = 2 powr 53" using quantum_times [of ?x] True by simp
    ultimately have "?x = quantum ?x * of_int (2 ^ 52)" by simp
    then show ?thesis by (rule double_round_fix)
  next
    case False
    with b53 have le: "binade ?x \<le> 52" by simp
    define k where "k = nat (52 - binade ?x)"
    have "real_of_int (binade ?x) - 52 = - real k" using le by (simp add: k_def)
    then have "quantum ?x = 2 powr (- real k)" by (simp add: quantum_def)
    also have "\<dots> = 1 / 2 ^ k" by (simp add: powr_minus powr_realpow divide_inverse)
    finally have "quantum ?x * of_int (n * 2 ^ k) = ?x" by simp
    then have "?x = quantum ?x * of_int (n * 2 ^ k)" by simp
    then show ?thesis by (rule double_round_fix)
  qed
qed

lemma double_round_integral:
  assumes "0 < a" and "52 \<le> binade a"
  shows "\<exists>K. double_round a = of_int K"
proof -
  define k where "k = nat (binade a - 52)"
  have "real_of_int (binade a) - 52 = real k" using assms(2) by (simp add: k_def)
  then have "quantum a = 2 powr real k" by (simp add: quantum_def)
  also have "\<dots> = of_int (2 ^ k)" by (simp add: powr_realpow)
  finally have "double_round a = of_int (2 ^ k * roundTiesToEven (a / quantum a))"
    using assms(1) by (simp add: double_round_def)
  then show ?thesis ..
qed

lemma double_round_ceiling_floor_nonneg:
  assumes "0 \<le> a"
  shows "double_round (of_int \<lceil>double_round a\<rceil>) = of_int \<lceil>double_round a\<rceil>
       \<and> double_round (of_int \<lfloor>double_round a\<rfloor>) = of_int \<lfloor>double_round a\<rfloor>"
proof (cases "0 < a \<and> 52 \<le> binade a")
  case True
  then obtain K where K: "double_round a = of_int K"
    using double_round_integral by blast
  have "double_round (of_int K) = of_int K"
    using double_round_idem [of a] by (simp add: K)
  then show ?thesis by (simp add: K)
next
  case False
  let ?v = "double_round a"
  have v0: "0 \<le> ?v" using assms by (rule double_round_nonneg)
  have "?v \<le> 2 ^ 52"
  proof (cases "a = 0")
    case True
    then show ?thesis by (simp add: double_round_def)
  next
    case False
    with assms have pos: "0 < a" by simp
    with \<open>\<not> (0 < a \<and> 52 \<le> binade a)\<close> have "binade a < 52" by simp
    then have "real_of_int (binade a) + 1 \<le> 52" by linarith
    then have "(2::real) powr (of_int (binade a) + 1) \<le> 2 powr 52"
      by (intro powr_mono) simp_all
    with double_round_upper [OF pos] show ?thesis by simp
  qed
  then have c: "\<lceil>?v\<rceil> \<le> 2 ^ 52" by (simp add: ceiling_le_iff)
  have f: "\<lfloor>?v\<rfloor> \<le> \<lceil>?v\<rceil>" by (rule floor_le_ceiling)
  have f0: "0 \<le> \<lfloor>?v\<rfloor>" using v0 by simp
  have c0: "0 \<le> \<lceil>?v\<rceil>" using f f0 by linarith
  have "\<lceil>?v\<rceil> \<le> 2 ^ 53" "\<lfloor>?v\<rfloor> \<le> 2 ^ 53" using c f by simp_all
  with f0 c0 show ?thesis by (simp add: double_round_of_int_small)
qed

lemma double_round_ceiling: "double_round (of_int \<lceil>double_round a\<rceil>) = of_int \<lceil>double_round a\<rceil>"
proof (cases "0 \<le> a")
  case True
  then show ?thesis by (simp add: double_round_ceiling_floor_nonneg)
next
  case False
  then have "0 \<le> - a" by simp
  from double_round_ceiling_floor_nonneg [OF this]
  have "double_round (of_int \<lfloor>- double_round a\<rfloor>) = of_int \<lfloor>- double_round a\<rfloor>"
    by (simp add: double_round_minus)
  then have "double_round (- of_int \<lceil>double_round a\<rceil>) = - of_int \<lceil>double_round a\<rceil>"
    by (simp add: ceiling_def)
  then show ?thesis by (simp add: double_round_minus)
qed

lemma double_round_one: "double_round 1 = 1"
  using double_round_of_int_small [of 1] by simp


lemma double_round_in_binade:
  assumes "q = 2 powr (of_int e - 52)" and "q * 2 ^ 52 \<le> x" and "x < q * 2 ^ 53"
    and "- 1022 < e"
  shows "double_round x = q * of_int (roundTiesToEven (x / q))"
proof -
  have q52: "q * 2 ^ 52 = 2 powr of_int e" by (simp add: assms(1) powr_diff)
  have q53: "q * 2 ^ 53 = 2 powr (of_int e + 1)" by (simp add: assms(1) powr_diff powr_add)
  have "0 < 2 powr real_of_int e" by simp
  with assms(2) q52 have pos: "0 < x" by linarith
  have "binade x = e" using pos assms q52 q53 by (intro binade_eqI) simp_all
  then show ?thesis using pos assms(1) by (simp add: double_round_def quantum_def)
qed

lemma js_times_ceiling_one:
  "js_times (of_int \<lceil>js_times x y\<rceil>) 1 = of_int \<lceil>js_times x y\<rceil>"
  by (simp add: js_times_def double_round_one double_round_ceiling)

lemma ctx_ctx_call: "ctx (ctx_call c s) = ctx s @ [c]"
  by (simp add: ctx_call_def)

lemma ctx_call_fields:
  "scaledCharWidth (ctx_call c s) = scaledCharWidth s"
  "scaledCharHeight (ctx_call c s) = scaledCharHeight s"
  "scaledLineHeight (ctx_call c s) = scaledLineHeight s"
  "scaledLineDrawY (ctx_call c s) = scaledLineDrawY s"
  "charAtlas (ctx_call c s) = charAtlas s"
  "colors (ctx_call c s) = colors s"
  "acquired (ctx_call c s) = acquired s"
  "awaiting (ctx_call c s) = awaiting s"
  "canvas_width (ctx_call c s) = canvas_width s"
  "canvas_height (ctx_call c s) = canvas_height s"
  by (simp_all add: ctx_call_def)

lemma issued_append: "ctx s' = ctx s @ cs \<Longrightarrow> issued s s' = cs"
  by (simp add: issued_def)

lemma ctx_clearCells:
  "ctx (clearCells x y width height s) = ctx s @
     [ClearRect (real_of_int (x * scaledCharWidth s)) (real_of_int (y * scaledLineHeight s))
                (real_of_int (width * scaledCharWidth s)) (real_of_int (height * scaledLineHeight s))]"
  by (simp add: clearCells_def ctx_ctx_call)

lemma clearCells_fields:
  "scaledCharWidth (clearCells x y w h s) = scaledCharWidth s"
  "scaledCharHeight (clearCells x y w h s) = scaledCharHeight s"
  "scaledLineHeight (clearCells x y w h s) = scaledLineHeight s"
  "scaledLineDrawY (clearCells x y w h s) = scaledLineDrawY s"
  "charAtlas (clearCells x y w h s) = charAtlas s"
  "colors (clearCells x y w h s) = colors s"
  "acquired (clearCells x y w h s) = acquired s"
  "awaiting (clearCells x y w h s) = awaiting s"
  by (simp_all add: clearCells_def ctx_call_fields)

lemma ctx_drawUncachedChar:
  "ctx (drawUncachedChar E t c width fg x y s) = ctx s @
     [Save,
      SetFont (fontSize (options t) * devicePixelRatio E) (fontFamily (options t)),
      SetTextBaseline ''top'',
      SetFillStyle (if fg = INVERTED_DEFAULT_COLOR then Some (background (colors s))
                    else if fg < 256 then array_get (ansi (colors s)) fg
                    else Some (foreground (colors s))),
      BeginPath,
      Rect (real_of_int (x * scaledCharWidth s))
           (real_of_int (y * scaledLineHeight s + scaledLineDrawY s))
           (real_of_int (width * scaledCharWidth s))
           (real_of_int (scaledCharHeight s)),
      Clip,
      FillText c (real_of_int (x * scaledCharWidth s))
                 (real_of_int (y * scaledLineHeight s + scaledLineDrawY s)),
      Restore]"
  by (simp add: drawUncachedChar_def Let_def ctx_ctx_call ctx_call_fields)

lemma drawUncachedChar_fields:
  "scaledCharWidth (drawUncachedChar E t c w fg x y s) = scaledCharWidth s"
  "scaledCharHeight (drawUncachedChar E t c w fg x y s) = scaledCharHeight s"
  "scaledLineHeight (drawUncachedChar E t c w fg x y s) = scaledLineHeight s"
  "scaledLineDrawY (drawUncachedChar E t c w fg x y s) = scaledLineDrawY s"
  "charAtlas (drawUncachedChar E t c w fg x y s) = charAtlas s"
  "colors (drawUncachedChar E t c w fg x y s) = colors s"
  "acquired (drawUncachedChar E t c w fg x y s) = acquired s"
  "awaiting (drawUncachedChar E t c w fg x y s) = awaiting s"
  by (simp_all add: drawUncachedChar_def Let_def ctx_call_fields)

text \<open>The calls of \<open>drawChar\<close> on its two paths.\<close>

lemma ctx_drawChar_atlas:
  assumes "isAscii code \<and> (isBasicColor fg bold \<or> isDefaultColor fg)"
  shows "ctx (drawChar E t c code width x y fg bold s) =
     ctx (if width = 2 then clearCells (x + 1) y 1 1 s else s) @
     [DrawImage (charAtlas s)
        (real_of_int (code * (scaledCharWidth s + CHAR_ATLAS_CELL_SPACING E)))
        (real_of_int (colorIndex fg bold * (scaledCharHeight s + CHAR_ATLAS_CELL_SPACING E)))
        (real_of_int (scaledCharWidth s)) (real_of_int (scaledCharHeight s))
        (real_of_int (x * scaledCharWidth s))
        (real_of_int (y * scaledLineHeight s + scaledLineDrawY s))
        (real_of_int (scaledCharWidth s)) (real_of_int (scaledCharHeight s))]"
  by (simp add: drawChar_def Let_def assms ctx_ctx_call ctx_call_fields clearCells_fields)

lemma ctx_drawChar_uncached:
  assumes "\<not> (isAscii code \<and> (isBasicColor fg bold \<or> isDefaultColor fg))"
  shows "ctx (drawChar E t c code width x y fg bold s) =
     ctx (if width = 2 then clearCells (x + 1) y 1 1 s else s) @
     [Save,
      SetFont (fontSize (options t) * devicePixelRatio E) (fontFamily (options t)),
      SetTextBaseline ''top'',
      SetFillStyle (if fg = INVERTED_DEFAULT_COLOR then Some (background (colors s))
                    else if fg < 256 then array_get (ansi (colors s)) fg
                    else Some (foreground (colors s))),
      BeginPath,
      Rect (real_of_int (x * scaledCharWidth s))
           (real_of_int (y * scaledLineHeight s + scaledLineDrawY s))
           (real_of_int (width * scaledCharWidth s))
           (real_of_int (scaledCharHeight s)),
      Clip,
      FillText c (real_of_int (x * scaledCharWidth s))
                 (real_of_int (y * scaledLineHeight s + scaledLineDrawY s)),
      Restore]"
  by (simp add: drawChar_def Let_def assms ctx_drawUncachedChar clearCells_fields)

lemma eligible_iff_spec:
  "(isAscii code \<and> (isBasicColor fg bold \<or> isDefaultColor fg)) = spec_atlas_eligible code fg bold"
  by (auto simp: isAscii_def isBasicColor_def isDefaultColor_def colorIndex_def
      spec_atlas_eligible_def spec_basic_slot_def spec_colorSlot_def)

lemma colorIndex_spec: "colorIndex fg bold = spec_colorSlot fg bold"
  by (simp add: colorIndex_def spec_colorSlot_def)

lemma issued_drawChar_atlas:
  assumes "spec_atlas_eligible code fg bold"
  shows "issued s (drawChar E t c code width x y fg bold s) =
     (if width = 2
      then [ClearRect (real_of_int ((x + 1) * scaledCharWidth s)) (real_of_int (y * scaledLineHeight s))
                      (real_of_int (scaledCharWidth s)) (real_of_int (scaledLineHeight s))]
      else []) @
     [DrawImage (charAtlas s)
        (real_of_int (code * (scaledCharWidth s + CHAR_ATLAS_CELL_SPACING E)))
        (real_of_int (colorIndex fg bold * (scaledCharHeight s + CHAR_ATLAS_CELL_SPACING E)))
        (real_of_int (scaledCharWidth s)) (real_of_int (scaledCharHeight s))
        (real_of_int (x * scaledCharWidth s))
        (real_of_int (y * scaledLineHeight s + scaledLineDrawY s))
        (real_of_int (scaledCharWidth s)) (real_of_int (scaledCharHeight s))]"
proof -
  have e: "isAscii code \<and> (isBasicColor fg bold \<or> isDefaultColor fg)"
    using assms by (simp add: eligible_iff_spec)
  show ?thesis
    by (rule issued_append) (simp add: ctx_drawChar_atlas [OF e] ctx_clearCells)
qed

lemma issued_drawChar_uncached:
  assumes "\<not> spec_atlas_eligible code fg bold"
  shows "issued s (drawChar E t c code width x y fg bold s) =
     (if width = 2
      then [ClearRect (real_of_int ((x + 1) * scaledCharWidth s)) (real_of_int (y * scaledLineHeight s))
                      (real_of_int (scaledCharWidth s)) (real_of_int (scaledLineHeight s))]
      else []) @
     [Save,
      SetFont (fontSize (options t) * devicePixelRatio E) (fontFamily (options t)),
      SetTextBaseline ''top'',
      SetFillStyle (if fg = INVERTED_DEFAULT_COLOR then Some (background (colors s))
                    else if fg < 256 then array_get (ansi (colors s)) fg
                    else Some (foreground (colors s))),
      BeginPath,
      Rect (real_of_int (x * scaledCharWidth s))
           (real_of_int (y * scaledLineHeight s + scaledLineDrawY s))
           (real_of_int (width * scaledCharWidth s))
           (real_of_int (scaledCharHeight s)),
      Clip,
      FillText c (real_of_int (x * scaledCharWidth s))
                 (real_of_int (y * scaledLineHeight s + scaledLineDrawY s)),
      Restore]"
proof -
  have e: "\<not> (isAscii code \<and> (isBasicColor fg bold \<or> isDefaultColor fg))"
    using assms by (simp add: eligible_iff_spec)
  show ?thesis
    by (rule issued_append) (simp add: ctx_drawChar_uncached [OF e] ctx_clearCells)
qed

lemma acquired_refreshCharAtlas:
  "acquired (refreshCharAtlas E t cs s) =
     acquired s @ [(t, colors s, scaledCharWidth s, scaledCharHeight s)]"
  by (simp add: refreshCharAtlas_def Let_def split: acquire_result.split)

text \<open>Frame facts: what the drawing methods and the callback leave alone.\<close>

lemma drawChar_fields:
  "scaledCharHeight (drawChar E t c code w x y fg bold s) = scaledCharHeight s"
  "scaledLineHeight (drawChar E t c code w x y fg bold s) = scaledLineHeight s"
  "charAtlas (drawChar E t c code w x y fg bold s) = charAtlas s"
  by (simp_all add: drawChar_def Let_def ctx_call_fields clearCells_fields drawUncachedChar_fields)

lemma primitives_fields:
  "scaledCharHeight (fillCells x y w h s) = scaledCharHeight s"
  "scaledLineHeight (fillCells x y w h s) = scaledLineHeight s"
  "charAtlas (fillCells x y w h s) = charAtlas s"
  "scaledCharHeight (fillBottomLineAtCells E x y w s) = scaledCharHeight s"
  "scaledLineHeight (fillBottomLineAtCells E x y w s) = scaledLineHeight s"
  "charAtlas (fillBottomLineAtCells E x y w s) = charAtlas s"
  "scaledCharHeight (fillLeftLineAtCell E x y s) = scaledCharHeight s"
  "scaledLineHeight (fillLeftLineAtCell E x y s) = scaledLineHeight s"
  "charAtlas (fillLeftLineAtCell E x y s) = charAtlas s"
  "scaledCharHeight (strokeRectAtCell E x y w h s) = scaledCharHeight s"
  "scaledLineHeight (strokeRectAtCell E x y w h s) = scaledLineHeight s"
  "charAtlas (strokeRectAtCell E x y w h s) = charAtlas s"
  "scaledCharHeight (clearAll s) = scaledCharHeight s"
  "scaledLineHeight (clearAll s) = scaledLineHeight s"
  "charAtlas (clearAll s) = charAtlas s"
  "scaledCharHeight (fillCharTrueColor E t cd x y s) = scaledCharHeight s"
  "scaledLineHeight (fillCharTrueColor E t cd x y s) = scaledLineHeight s"
  "charAtlas (fillCharTrueColor E t cd x y s) = charAtlas s"
  by (simp_all add: fillCells_def fillBottomLineAtCells_def fillLeftLineAtCell_def
      strokeRectAtCell_def clearAll_def fillCharTrueColor_def Let_def ctx_call_fields)

lemma hooks_id:
  "onOptionsChanged t s = s" "onBlur t s = s" "onFocus t s = s" "onCursorMove t s = s"
  "onGridChanged t a b s = s" "onSelectionChanged t p q s = s"
  by (simp_all add: onOptionsChanged_def onBlur_def onFocus_def onCursorMove_def
      onGridChanged_def onSelectionChanged_def)

lemma promise_resolved_geometry:
  "scaledCharHeight (promise_resolved p b s) = scaledCharHeight s"
  "scaledLineHeight (promise_resolved p b s) = scaledLineHeight s"
  by (simp_all add: promise_resolved_def)

lemma charAtlas_resize_unchanged: "charAtlas (resize E t w h False s) = charAtlas s"
  by (simp add: resize_def Let_def)

lemma charAtlas_step:
  assumes "\<not> assigns_atlas e"
  shows "charAtlas (step E e s) = charAtlas s"
  using assms
  by (cases e)
    (simp_all add: hooks_id primitives_fields clearCells_fields drawChar_fields
      charAtlas_resize_unchanged)

lemma charAtlas_run:
  assumes "list_all (\<lambda>(E, e). \<not> assigns_atlas e) es"
  shows "charAtlas (run es s) = charAtlas s"
  using assms
proof (induction es arbitrary: s)
  case Nil
  show ?case by simp
next
  case (Cons a es)
  obtain E e where a: "a = (E, e)" by (cases a)
  from Cons.prems a have "\<not> assigns_atlas e" and rest: "list_all (\<lambda>(E, e). \<not> assigns_atlas e) es"
    by simp_all
  then have "charAtlas (step E e s) = charAtlas s" by (simp add: charAtlas_step)
  with Cons.IH [OF rest, of "step E e s"] a show ?case by simp
qed

lemma refreshCharAtlas_pending:
  assumes "acquireCharAtlas E t (colors s) (scaledCharWidth s) (scaledCharHeight s) = ResultPromise p"
  shows "refreshCharAtlas E t cs s =
           s\<lparr>charAtlas := None,
             acquired := acquired s @ [(t, colors s, scaledCharWidth s, scaledCharHeight s)],
             awaiting := awaiting s @ [p]\<rparr>"
  using assms by (simp add: refreshCharAtlas_def Let_def)

lemma two_pending_refreshes:
  assumes "acquireCharAtlas E1 t1 (colors s) (scaledCharWidth s) (scaledCharHeight s) = ResultPromise p1"
    and "acquireCharAtlas E2 t2 (colors s) (scaledCharWidth s) (scaledCharHeight s) = ResultPromise p2"
  shows "awaiting (onThemeChanged E2 t2 c2 (onThemeChanged E1 t1 c1 s)) = awaiting s @ [p1, p2]"
    and "charAtlas (onThemeChanged E2 t2 c2 (onThemeChanged E1 t1 c1 s)) = None"
  using assms by (simp_all add: onThemeChanged_def refreshCharAtlas_def Let_def)

lemma double_round_nonpos:
  assumes "x \<le> 0"
  shows "double_round x \<le> 0"
proof -
  from assms have "0 \<le> - x" by simp
  then have "0 \<le> double_round (- x)" by (rule double_round_nonneg)
  then show ?thesis by (simp add: double_round_minus)
qed

lemma js_times_nonneg:
  assumes "0 \<le> x * y"
  shows "0 \<le> js_times x y"
proof -
  from assms have "(0 \<le> x \<and> 0 \<le> y) \<or> (x \<le> 0 \<and> y \<le> 0)"
    by (simp add: zero_le_mult_iff)
  then have "0 \<le> double_round x * double_round y"
  proof
    assume "0 \<le> x \<and> 0 \<le> y"
    then show ?thesis by (simp add: double_round_nonneg)
  next
    assume "x \<le> 0 \<and> y \<le> 0"
    then show ?thesis by (simp add: double_round_nonpos mult_nonpos_nonpos)
  qed
  then show ?thesis unfolding js_times_def by (rule double_round_nonneg)
qed

lemma resize_geometry_ok:
  assumes "1 \<le> lineHeight (options t)"
    and "0 \<le> charMeasure_height (charMeasure t) * devicePixelRatio E"
  shows "geometry_ok (resize E t w h b s)"
proof -
  let ?n = "\<lceil>js_times (charMeasure_height (charMeasure t)) (devicePixelRatio E)\<rceil>"
  let ?m = "double_round (lineHeight (options t))"
  have "0 \<le> js_times (charMeasure_height (charMeasure t)) (devicePixelRatio E)"
    using assms(2) by (rule js_times_nonneg)
  then have n0: "0 \<le> real_of_int ?n" by (simp add: zero_le_ceiling)
  have fixed: "double_round (of_int ?n) = of_int ?n"
    by (simp add: js_times_def double_round_ceiling)
  have "double_round 1 \<le> ?m"
    using assms(1) by (intro double_round_mono_nonneg) simp_all
  then have "1 \<le> ?m" by (simp add: double_round_one)
  with n0 have "real_of_int ?n * 1 \<le> real_of_int ?n * ?m" by (intro mult_left_mono)
  then have "real_of_int ?n \<le> real_of_int ?n * ?m" by simp
  with n0 have "double_round (of_int ?n) \<le> double_round (of_int ?n * ?m)"
    by (intro double_round_mono_nonneg)
  then have "real_of_int ?n \<le> double_round (double_round (of_int ?n) * ?m)"
    by (simp only: fixed)
  then have "real_of_int ?n \<le> js_times (of_int ?n) (lineHeight (options t))"
    by (simp only: js_times_def [of "of_int ?n"])
  then have "?n \<le> \<lfloor>js_times (of_int ?n) (lineHeight (options t))\<rfloor>"
    by (simp add: le_floor_iff)
  then show ?thesis
    by (simp add: geometry_ok_def resize_scaledCharHeight resize_scaledLineHeight)
qed

text \<open>The doubles of the concrete inputs.\<close>

lemma double_round_small_values:
  "double_round 2 = 2" "double_round 6 = 6" "double_round 12 = 12" "double_round 15 = 15"
  "double_round 30 = 30" "double_round 42 = 42" "double_round 45 = 45"
  using double_round_of_int_small [of 2] double_round_of_int_small [of 6]
    double_round_of_int_small [of 12] double_round_of_int_small [of 15]
    double_round_of_int_small [of 30] double_round_of_int_small [of 42]
    double_round_of_int_small [of 45]
  by simp_all

lemma double_round_fractions:
  "double_round (3 / 2) = 3 / 2"
  "double_round (15 / 2) = 15 / 2"
  "double_round (72 / 10) = 8106479329266893 / 2 ^ 50"
  "double_round (8106479329266893 / 2 ^ 50 * 2) = 8106479329266893 / 2 ^ 49"
  "double_round (14 / 10) = 6305039478318694 / 2 ^ 52"
  "double_round (30 * (6305039478318694 / 2 ^ 52)) = 42"
  using double_round_in_binade [of "1 / 2 ^ 52" 0 "3 / 2"]
    double_round_in_binade [of "1 / 2 ^ 50" 2 "15 / 2"]
    double_round_in_binade [of "1 / 2 ^ 50" 2 "72 / 10"]
    double_round_in_binade [of "1 / 2 ^ 49" 3 "8106479329266893 / 2 ^ 50 * 2"]
    double_round_in_binade [of "1 / 2 ^ 52" 0 "14 / 10"]
    double_round_in_binade [of "1 / 2 ^ 47" 5 "30 * (6305039478318694 / 2 ^ 52)"]
  by (simp_all add: roundTiesToEven_def Let_def powr_neg_numeral)

lemma double_round_products:
  "double_round (15 * 2) = 30"
  "double_round (30 * (3 / 2)) = 45"
  "double_round (45 - 30) = 15"
  "double_round (42 - 30) = 12"
  "double_round (12 / 2) = 6"
  using double_round_small_values by simp_all

lemma demo_products:
  "js_times (72 / 10) 2 = 8106479329266893 / 2 ^ 49"
  "js_times 15 2 = 30"
  "js_times 30 (3 / 2) = 45"
  "js_times 30 (14 / 10) = 42"
  "double_round (js_minus 45 30 / 2) = 15 / 2"
  "double_round (js_minus 42 30 / 2) = 6"
  unfolding js_times_def js_minus_def
  by (simp_all only: double_round_small_values double_round_fractions double_round_products)

lemma demo_geometry:
  "\<lceil>js_times (72 / 10) 2\<rceil> = 15"
  "\<lceil>js_times 15 2\<rceil> = 30"
  "\<lfloor>js_times 30 (3 / 2)\<rfloor> = 45"
  "\<lfloor>js_times 30 (14 / 10)\<rfloor> = 42"
  "round (double_round (js_minus 45 30 / 2)) = 8"
  "round (double_round (js_minus 42 30 / 2)) = 6"
  unfolding demo_products by (simp_all add: round_def)

text \<open>Resizes in which the rounding of the product decides the integer: the exact
  products of the doubles are \<open>20.99\<dots>\<close>, \<open>62.99\<dots>\<close>, \<open>55.00\<dots>04\<close> and \<open>9.00\<dots>02\<close>.\<close>

lemma double_round_more_values:
  "double_round 50 = 50"
  "double_round (11 / 10) = 4953959590107546 / 2 ^ 52"
  "double_round (125 / 100) = 5 / 4"
  "double_round (15 * (6305039478318694 / 2 ^ 52)) = 21"
  "double_round (45 * (6305039478318694 / 2 ^ 52)) = 8866461766385663 / 2 ^ 47"
  "double_round (50 * (4953959590107546 / 2 ^ 52)) = 7740561859543041 / 2 ^ 47"
  "double_round (8106479329266893 / 2 ^ 50 * (5 / 4)) = 9"
  using double_round_of_int_small [of 50]
    double_round_in_binade [of "1 / 2 ^ 52" 0 "11 / 10"]
    double_round_in_binade [of "1 / 2 ^ 52" 0 "125 / 100"]
    double_round_in_binade [of "1 / 2 ^ 48" 4 "15 * (6305039478318694 / 2 ^ 52)"]
    double_round_in_binade [of "1 / 2 ^ 47" 5 "45 * (6305039478318694 / 2 ^ 52)"]
    double_round_in_binade [of "1 / 2 ^ 47" 5 "50 * (4953959590107546 / 2 ^ 52)"]
    double_round_in_binade [of "1 / 2 ^ 49" 3 "8106479329266893 / 2 ^ 50 * (5 / 4)"]
  by (simp_all add: roundTiesToEven_def Let_def powr_neg_numeral)

lemma rounding_decides:
  "\<lfloor>js_times 15 (14 / 10)\<rfloor> = 21"
  "\<lfloor>js_times 45 (14 / 10)\<rfloor> = 62"
  "\<lceil>js_times 50 (11 / 10)\<rceil> = 56"
  "\<lceil>js_times (72 / 10) (125 / 100)\<rceil> = 9"
proof -
  have p: "js_times 15 (14 / 10) = 21"
    "js_times 45 (14 / 10) = 8866461766385663 / 2 ^ 47"
    "js_times 50 (11 / 10) = 7740561859543041 / 2 ^ 47"
    "js_times (72 / 10) (125 / 100) = 9"
    unfolding js_times_def
    by (simp_all only: double_round_small_values double_round_fractions double_round_more_values)
  show "\<lfloor>js_times 15 (14 / 10)\<rfloor> = 21"
    "\<lfloor>js_times 45 (14 / 10)\<rfloor> = 62"
    "\<lceil>js_times 50 (11 / 10)\<rceil> = 56"
    "\<lceil>js_times (72 / 10) (125 / 100)\<rceil> = 9"
    unfolding p by simp_all
qed

lemma onThemeChanged_geometry:
  "scaledCharHeight (onThemeChanged E t c s) = scaledCharHeight s"
  "scaledLineHeight (onThemeChanged E t c s) = scaledLineHeight s"
  by (simp_all add: onThemeChanged_def refreshCharAtlas_geometry)

lemma step_geometry_ok:
  assumes "resize_ok (E, e)" and "geometry_ok s"
  shows "geometry_ok (step E e s)"
proof (cases e)
  case (Resize t w h b)
  with assms(1) show ?thesis by (simp add: resize_geometry_ok)
qed (use assms(2) in \<open>simp_all add: geometry_ok_def hooks_id primitives_fields clearCells_fields
      drawChar_fields promise_resolved_geometry onThemeChanged_geometry\<close>)

lemma run_geometry_ok:
  assumes "list_all resize_ok es" and "geometry_ok s"
  shows "geometry_ok (run es s)"
  using assms
proof (induction es arbitrary: s)
  case Nil
  then show ?case by simp
next
  case (Cons a es)
  obtain E e where a: "a = (E, e)" by (cases a)
  from Cons.prems a have "geometry_ok (step E e s)" by (simp add: step_geometry_ok)
  moreover from Cons.prems have "list_all resize_ok es" by simp
  ultimately show ?case using Cons.IH a by simp
qed

lemma list_all_take: "list_all P xs \<Longrightarrow> list_all P (take n xs)"
  by (auto simp: list_all_iff dest: in_set_takeD)

section \<open>Claims\<close>

text \<open>
  C6. For every resize with font metrics \<open>(fontWidth, fontHeight)\<close>, device pixel ratio
  \<open>r\<close> and line-height multiplier \<open>m\<close>, none of whose products overflows:
  \<open>scaledCharWidth = ceil (fontWidth * r)\<close>, \<open>scaledCharHeight = ceil (fontHeight * r)\<close>,
  \<open>scaledLineHeight\<close> is \<open>floor (scaledCharHeight * m)\<close> when \<open>m \<noteq> 1\<close> and exactly
  \<open>scaledCharHeight\<close> when \<open>m = 1\<close>, and \<open>scaledLineDrawY\<close> is \<open>0\<close> when \<open>m = 1\<close> and
  \<open>round ((scaledLineHeight - scaledCharHeight) / 2)\<close> otherwise, where the product, the
  difference and the quotient are those of JavaScript numbers (the exact results
  rounded to a double). The source floors the product for \<open>m = 1\<close> too; that the result
  is exactly \<open>scaledCharHeight\<close> holds because a double cut to an integer is a double.
\<close>

theorem resize_geometry:
  assumes "resize_finite E t"
  shows "scaledCharWidth (resize E t canvasWidth canvasHeight charSizeChanged s)
     = \<lceil>js_times (charMeasure_width (charMeasure t)) (devicePixelRatio E)\<rceil>
   \<and> scaledCharHeight (resize E t canvasWidth canvasHeight charSizeChanged s)
     = \<lceil>js_times (charMeasure_height (charMeasure t)) (devicePixelRatio E)\<rceil>
   \<and> scaledLineHeight (resize E t canvasWidth canvasHeight charSizeChanged s)
     = (if lineHeight (options t) = 1
        then scaledCharHeight (resize E t canvasWidth canvasHeight charSizeChanged s)
        else \<lfloor>js_times (of_int (scaledCharHeight (resize E t canvasWidth canvasHeight charSizeChanged s)))
                       (lineHeight (options t))\<rfloor>)
   \<and> scaledLineDrawY (resize E t canvasWidth canvasHeight charSizeChanged s)
     = (if lineHeight (options t) = 1 then 0
        else round (double_round
               (js_minus (of_int (scaledLineHeight (resize E t canvasWidth canvasHeight charSizeChanged s)))
                         (of_int (scaledCharHeight (resize E t canvasWidth canvasHeight charSizeChanged s)))
                / 2)))"
  by (simp add: resize_scaledCharWidth resize_scaledCharHeight resize_scaledLineHeight
      resize_scaledLineDrawY js_times_ceiling_one)

theorem resize_geometry_witness:
  "resize_finite (pending_env 1) decimal_terminal
   \<and> scaledCharWidth (resize (pending_env 1) decimal_terminal 800 600 False (demo_layer None)) = 15
   \<and> scaledCharHeight (resize (pending_env 1) decimal_terminal 800 600 False (demo_layer None)) = 30
   \<and> scaledLineHeight (resize (pending_env 1) decimal_terminal 800 600 False (demo_layer None)) = 42
   \<and> scaledLineDrawY (resize (pending_env 1) decimal_terminal 800 600 False (demo_layer None)) = 6"
proof -
  have fin: "resize_finite (pending_env 1) decimal_terminal"
    using double_round_small_values double_round_fractions demo_geometry
    by (simp add: resize_finite_def finite_double_def decimal_terminal_def pending_env_def)
  from resize_geometry [OF fin, of 800 600 False "demo_layer None"] fin demo_geometry
  show ?thesis by (simp add: decimal_terminal_def pending_env_def)
qed

text \<open>
  C1. For every call \<open>drawChar (terminal, char, code, width, x, y, fg, bold)\<close> the
  colour slot is \<open>fg + 2\<close> when \<open>fg < 256\<close>, \<open>1\<close> when \<open>fg \<ge> 256\<close> and \<open>bold\<close>, and
  \<open>0\<close> otherwise; the glyph is blitted from the atlas (a \<open>drawImage\<close> call is issued)
  if and only if \<open>code < 256\<close> and (the slot is one of the basic slots with \<open>fg < 16\<close>, or
  \<open>fg \<ge> 256\<close>), and it is drawn directly (a \<open>fillText\<close> call is issued) otherwise.
  For \<open>code = 65\<close> and \<open>fg = 5\<close> the call is a blit from the row of slot 7; for
  \<open>code = 65\<close> and \<open>fg = 200\<close> the glyph is drawn directly with fill style \<open>ansi[200]\<close>.
\<close>

theorem drawChar_slot_and_path:
  "colorIndex fg bold = spec_colorSlot fg bold
   \<and> list_ex is_DrawImage (issued s (drawChar E t c code width x y fg bold s))
       = spec_atlas_eligible code fg bold
   \<and> list_ex is_FillText (issued s (drawChar E t c code width x y fg bold s))
       = (\<not> spec_atlas_eligible code fg bold)
   \<and> colorIndex 5 bold = 7
   \<and> issued s (drawChar E t c 65 width x y 5 bold s) =
       (if width = 2
        then [ClearRect (real_of_int ((x + 1) * scaledCharWidth s)) (real_of_int (y * scaledLineHeight s))
                        (real_of_int (scaledCharWidth s)) (real_of_int (scaledLineHeight s))]
        else []) @
       [DrawImage (charAtlas s)
          (real_of_int (65 * (scaledCharWidth s + CHAR_ATLAS_CELL_SPACING E)))
          (real_of_int (7 * (scaledCharHeight s + CHAR_ATLAS_CELL_SPACING E)))
          (real_of_int (scaledCharWidth s)) (real_of_int (scaledCharHeight s))
          (real_of_int (x * scaledCharWidth s))
          (real_of_int (y * scaledLineHeight s + scaledLineDrawY s))
          (real_of_int (scaledCharWidth s)) (real_of_int (scaledCharHeight s))]
   \<and> issued s (drawChar E t c 65 width x y 200 bold s) =
       (if width = 2
        then [ClearRect (real_of_int ((x + 1) * scaledCharWidth s)) (real_of_int (y * scaledLineHeight s))
                        (real_of_int (scaledCharWidth s)) (real_of_int (scaledLineHeight s))]
        else []) @
       [Save,
        SetFont (fontSize (options t) * devicePixelRatio E) (fontFamily (options t)),
        SetTextBaseline ''top'',
        SetFillStyle (array_get (ansi (colors s)) 200),
        BeginPath,
        Rect (real_of_int (x * scaledCharWidth s))
             (real_of_int (y * scaledLineHeight s + scaledLineDrawY s))
             (real_of_int (width * scaledCharWidth s))
             (real_of_int (scaledCharHeight s)),
        Clip,
        FillText c (real_of_int (x * scaledCharWidth s))
                   (real_of_int (y * scaledLineHeight s + scaledLineDrawY s)),
        Restore]"
proof -
  have slot: "colorIndex fg bold = spec_colorSlot fg bold"
    by (rule colorIndex_spec)
  have blits: "list_ex is_DrawImage (issued s (drawChar E t c code width x y fg bold s))
          = spec_atlas_eligible code fg bold"
    by (cases "spec_atlas_eligible code fg bold")
      (simp_all add: issued_drawChar_atlas issued_drawChar_uncached)
  have texts: "list_ex is_FillText (issued s (drawChar E t c code width x y fg bold s))
          = (\<not> spec_atlas_eligible code fg bold)"
    by (cases "spec_atlas_eligible code fg bold")
      (simp_all add: issued_drawChar_atlas issued_drawChar_uncached)
  have seven: "colorIndex 5 bold = 7"
    by (simp add: colorIndex_def)
  have e5: "spec_atlas_eligible 65 5 bold"
    by (simp add: spec_atlas_eligible_def spec_basic_slot_def spec_colorSlot_def)
  have at5: "issued s (drawChar E t c 65 width x y 5 bold s) =
       (if width = 2
        then [ClearRect (real_of_int ((x + 1) * scaledCharWidth s)) (real_of_int (y * scaledLineHeight s))
                        (real_of_int (scaledCharWidth s)) (real_of_int (scaledLineHeight s))]
        else []) @
       [DrawImage (charAtlas s)
          (real_of_int (65 * (scaledCharWidth s + CHAR_ATLAS_CELL_SPACING E)))
          (real_of_int (7 * (scaledCharHeight s + CHAR_ATLAS_CELL_SPACING E)))
          (real_of_int (scaledCharWidth s)) (real_of_int (scaledCharHeight s))
          (real_of_int (x * scaledCharWidth s))
          (real_of_int (y * scaledLineHeight s + scaledLineDrawY s))
          (real_of_int (scaledCharWidth s)) (real_of_int (scaledCharHeight s))]"
    by (simp add: issued_drawChar_atlas [OF e5] seven)
  have e200: "\<not> spec_atlas_eligible 65 200 bold"
    by (simp add: spec_atlas_eligible_def spec_basic_slot_def spec_colorSlot_def)
  have at200: "issued s (drawChar E t c 65 width x y 200 bold s) =
       (if width = 2
        then [ClearRect (real_of_int ((x + 1) * scaledCharWidth s)) (real_of_int (y * scaledLineHeight s))
                        (real_of_int (scaledCharWidth s)) (real_of_int (scaledLineHeight s))]
        else []) @
       [Save,
        SetFont (fontSize (options t) * devicePixelRatio E) (fontFamily (options t)),
        SetTextBaseline ''top'',
        SetFillStyle (array_get (ansi (colors s)) 200),
        BeginPath,
        Rect (real_of_int (x * scaledCharWidth s))
             (real_of_int (y * scaledLineHeight s + scaledLineDrawY s))
             (real_of_int (width * scaledCharWidth s))
             (real_of_int (scaledCharHeight s)),
        Clip,
        FillText c (real_of_int (x * scaledCharWidth s))
                   (real_of_int (y * scaledLineHeight s + scaledLineDrawY s)),
        Restore]"
    by (simp add: issued_drawChar_uncached [OF e200] INVERTED_DEFAULT_COLOR_def)
  from slot blits texts seven at5 at200 show ?thesis by (intro conjI)
qed

text \<open>
  C8. For every call of \<open>drawChar\<close> with \<open>width = 2\<close> at cell \<open>(x, y)\<close>, the first
  call issued clears exactly the cell \<open>(x + 1, y)\<close>, and the glyph is drawn by the calls
  that follow (a blit when the atlas path is taken, a \<open>fillText\<close> otherwise), none of
  which clears anything; with \<open>width = 1\<close> no cell is cleared.
\<close>

theorem drawChar_wide_clears_next_cell:
  "take 1 (issued s (drawChar E t c code 2 x y fg bold s)) =
      [ClearRect (real_of_int ((x + 1) * scaledCharWidth s)) (real_of_int (y * scaledLineHeight s))
                 (real_of_int (scaledCharWidth s)) (real_of_int (scaledLineHeight s))]
   \<and> take 1 (issued s (drawChar E t c code 2 x y fg bold s)) = issued s (clearCells (x + 1) y 1 1 s)
   \<and> \<not> list_ex is_ClearRect (drop 1 (issued s (drawChar E t c code 2 x y fg bold s)))
   \<and> list_ex is_DrawImage (drop 1 (issued s (drawChar E t c code 2 x y fg bold s)))
        = spec_atlas_eligible code fg bold
   \<and> list_ex is_FillText (drop 1 (issued s (drawChar E t c code 2 x y fg bold s)))
        = (\<not> spec_atlas_eligible code fg bold)
   \<and> \<not> list_ex is_ClearRect (issued s (drawChar E t c code 1 x y fg bold s))"
proof -
  have clr: "issued s (clearCells (x + 1) y 1 1 s) =
      [ClearRect (real_of_int ((x + 1) * scaledCharWidth s)) (real_of_int (y * scaledLineHeight s))
                 (real_of_int (scaledCharWidth s)) (real_of_int (scaledLineHeight s))]"
    by (rule issued_append) (simp add: ctx_clearCells)
  show ?thesis
    by (cases "spec_atlas_eligible code fg bold")
      (simp_all add: issued_drawChar_atlas issued_drawChar_uncached clr)
qed

text \<open>
  C10. For every call of \<open>drawChar\<close> with \<open>fg = INVERTED_DEFAULT_COLOR = -1\<close>: the
  colour index is \<open>1\<close> (that is \<open>fg + 2\<close>), the condition of the atlas path is false, no
  blit is issued, and the direct-draw path sets the fill style to the background colour.
\<close>

theorem drawChar_inverted_default:
  "INVERTED_DEFAULT_COLOR = - 1
   \<and> colorIndex INVERTED_DEFAULT_COLOR bold = 1
   \<and> colorIndex INVERTED_DEFAULT_COLOR bold = INVERTED_DEFAULT_COLOR + 2
   \<and> \<not> (isAscii code \<and> (isBasicColor INVERTED_DEFAULT_COLOR bold \<or> isDefaultColor INVERTED_DEFAULT_COLOR))
   \<and> \<not> list_ex is_DrawImage (issued s (drawChar E t c code width x y INVERTED_DEFAULT_COLOR bold s))
   \<and> issued s (drawChar E t c code width x y INVERTED_DEFAULT_COLOR bold s) =
       (if width = 2
        then [ClearRect (real_of_int ((x + 1) * scaledCharWidth s)) (real_of_int (y * scaledLineHeight s))
                        (real_of_int (scaledCharWidth s)) (real_of_int (scaledLineHeight s))]
        else []) @
       [Save,
        SetFont (fontSize (options t) * devicePixelRatio E) (fontFamily (options t)),
        SetTextBaseline ''top'',
        SetFillStyle (Some (background (colors s))),
        BeginPath,
        Rect (real_of_int (x * scaledCharWidth s))
             (real_of_int (y * scaledLineHeight s + scaledLineDrawY s))
             (real_of_int (width * scaledCharWidth s))
             (real_of_int (scaledCharHeight s)),
        Clip,
        FillText c (real_of_int (x * scaledCharWidth s))
                   (real_of_int (y * scaledLineHeight s + scaledLineDrawY s)),
        Restore]"
proof -
  have n: "\<not> spec_atlas_eligible code INVERTED_DEFAULT_COLOR bold"
    by (simp add: spec_atlas_eligible_def spec_basic_slot_def spec_colorSlot_def
        INVERTED_DEFAULT_COLOR_def)
  have i: "\<not> (isAscii code \<and> (isBasicColor INVERTED_DEFAULT_COLOR bold \<or> isDefaultColor INVERTED_DEFAULT_COLOR))"
    by (simp add: eligible_iff_spec n)
  have c: "colorIndex INVERTED_DEFAULT_COLOR bold = 1"
    by (simp add: colorIndex_def INVERTED_DEFAULT_COLOR_def)
  have d: "colorIndex INVERTED_DEFAULT_COLOR bold = INVERTED_DEFAULT_COLOR + 2"
    by (simp add: colorIndex_def INVERTED_DEFAULT_COLOR_def)
  have v: "INVERTED_DEFAULT_COLOR = - 1"
    by (simp add: INVERTED_DEFAULT_COLOR_def)
  have u: "issued s (drawChar E t c code width x y INVERTED_DEFAULT_COLOR bold s) =
       (if width = 2
        then [ClearRect (real_of_int ((x + 1) * scaledCharWidth s)) (real_of_int (y * scaledLineHeight s))
                        (real_of_int (scaledCharWidth s)) (real_of_int (scaledLineHeight s))]
        else []) @
       [Save,
        SetFont (fontSize (options t) * devicePixelRatio E) (fontFamily (options t)),
        SetTextBaseline ''top'',
        SetFillStyle (Some (background (colors s))),
        BeginPath,
        Rect (real_of_int (x * scaledCharWidth s))
             (real_of_int (y * scaledLineHeight s + scaledLineDrawY s))
             (real_of_int (width * scaledCharWidth s))
             (real_of_int (scaledCharHeight s)),
        Clip,
        FillText c (real_of_int (x * scaledCharWidth s))
                   (real_of_int (y * scaledLineHeight s + scaledLineDrawY s)),
        Restore]"
    by (simp add: issued_drawChar_uncached [OF n])
  have b: "\<not> list_ex is_DrawImage (issued s (drawChar E t c code width x y INVERTED_DEFAULT_COLOR bold s))"
    by (simp add: u)
  from v c d i b u show ?thesis by (intro conjI)
qed

text \<open>
  C2 (the code at the failing input). With no atlas held, a call of \<open>drawChar\<close> that
  is eligible for the atlas (\<open>code = 65\<close>, \<open>fg = 5\<close>) does not fall back to the direct-draw
  path: its only call on the context is \<open>drawImage\<close> with the absent atlas as image.
\<close>

theorem drawChar_absent_atlas_blits:
  "spec_atlas_eligible 65 5 False
   \<and> charAtlas (demo_layer None) = None
   \<and> ctx (drawChar (pending_env 1) demo_terminal ''A'' 65 1 3 2 5 False (demo_layer None))
       = [DrawImage None 1040 217 15 30 45 98 15 30]"
proof -
  have e: "spec_atlas_eligible 65 5 False"
    by (simp add: spec_atlas_eligible_def spec_basic_slot_def spec_colorSlot_def)
  have "issued (demo_layer None)
          (drawChar (pending_env 1) demo_terminal ''A'' 65 1 3 2 5 False (demo_layer None))
        = [DrawImage None 1040 217 15 30 45 98 15 30]"
    by (simp add: issued_drawChar_atlas [OF e] colorIndex_def demo_layer_def pending_env_def)
  then show ?thesis
    using e by (simp add: issued_def demo_layer_def)
qed

text \<open>
  C5 (the code at the failing input). \<open>onThemeChanged\<close> with the colour set
  \<open>light_colors\<close> on a layer that stores \<open>demo_colors\<close> calls \<open>acquireCharAtlas\<close> with the
  stored \<open>demo_colors\<close>, not with the colour set it was given.
\<close>

theorem onThemeChanged_ignores_colorSet:
  "light_colors \<noteq> demo_colors
   \<and> acquired (onThemeChanged (pending_env 1) demo_terminal light_colors (demo_layer None))
       = [(demo_terminal, demo_colors, 15, 30)]"
  by (simp add: onThemeChanged_def acquired_refreshCharAtlas demo_layer_def
      light_colors_def demo_colors_def)

text \<open>
  C3 as stated fails: a refresh whose acquisition is pending drops the atlas that was
  held when it was requested.
\<close>

theorem refresh_keeps_atlas_counterexample:
  "acquireCharAtlas (pending_env 1) demo_terminal (colors (demo_layer (Some (HTMLCanvasElement 0))))
      (scaledCharWidth (demo_layer (Some (HTMLCanvasElement 0))))
      (scaledCharHeight (demo_layer (Some (HTMLCanvasElement 0)))) = ResultPromise 1
   \<and> charAtlas (demo_layer (Some (HTMLCanvasElement 0))) = Some (HTMLCanvasElement 0)
   \<and> charAtlas (onThemeChanged (pending_env 1) demo_terminal light_colors
                  (demo_layer (Some (HTMLCanvasElement 0)))) = None
   \<and> charAtlas (onThemeChanged (pending_env 1) demo_terminal light_colors
                  (demo_layer (Some (HTMLCanvasElement 0))))
       \<noteq> charAtlas (demo_layer (Some (HTMLCanvasElement 0)))"
  by (simp add: onThemeChanged_def refreshCharAtlas_def Let_def pending_env_def demo_layer_def)

text \<open>
  C3, amended. For every atlas refresh whose acquisition returns a promise, the refresh
  clears the held atlas at the request, whatever was held before, and the layer holds
  no atlas after every later event up to the next event that assigns the atlas (the
  callback of a resolved promise, or another refresh).
\<close>

theorem refresh_pending_clears_atlas:
  assumes "acquireCharAtlas E t (colors s) (scaledCharWidth s) (scaledCharHeight s) = ResultPromise p"
    and "list_all (\<lambda>(E', e). \<not> assigns_atlas e) es"
  shows "charAtlas (refreshCharAtlas E t cs s) = None
       \<and> charAtlas (run es (refreshCharAtlas E t cs s)) = None"
  using assms by (simp add: charAtlas_run refreshCharAtlas_pending)

theorem refresh_pending_clears_atlas_witness:
  "acquireCharAtlas (pending_env 1) demo_terminal (colors (demo_layer (Some (HTMLCanvasElement 0))))
      (scaledCharWidth (demo_layer (Some (HTMLCanvasElement 0))))
      (scaledCharHeight (demo_layer (Some (HTMLCanvasElement 0)))) = ResultPromise 1
   \<and> list_all (\<lambda>(E', e). \<not> assigns_atlas e)
        [(pending_env 1, DrawChar demo_terminal ''A'' 65 1 3 2 200 False),
         (pending_env 1, Resize demo_terminal 800 600 False)]
   \<and> charAtlas (run [(pending_env 1, DrawChar demo_terminal ''A'' 65 1 3 2 200 False),
                      (pending_env 1, Resize demo_terminal 800 600 False)]
          (refreshCharAtlas (pending_env 1) demo_terminal light_colors
             (demo_layer (Some (HTMLCanvasElement 0))))) = None"
proof -
  have a: "acquireCharAtlas (pending_env 1) demo_terminal (colors (demo_layer (Some (HTMLCanvasElement 0))))
      (scaledCharWidth (demo_layer (Some (HTMLCanvasElement 0))))
      (scaledCharHeight (demo_layer (Some (HTMLCanvasElement 0)))) = ResultPromise 1"
    by (simp add: pending_env_def)
  have b: "list_all (\<lambda>(E', e). \<not> assigns_atlas e)
        [(pending_env 1, DrawChar demo_terminal ''A'' 65 1 3 2 200 False),
         (pending_env 1, Resize demo_terminal 800 600 False)]"
    by simp
  from refresh_pending_clears_atlas [OF a b, of light_colors] a b show ?thesis by simp
qed

text \<open>
  C4 as stated fails: when the completion of the first request arrives after the
  completion of the second, the layer ends up holding the first request's bitmap.
\<close>

theorem later_request_wins_counterexample:
  "awaiting (onThemeChanged (pending_env 2) demo_terminal demo_colors
               (onThemeChanged (pending_env 1) demo_terminal light_colors (demo_layer None)))
     = [1, 2]
   \<and> charAtlas (promise_resolved 1 10 (promise_resolved 2 20
            (onThemeChanged (pending_env 2) demo_terminal demo_colors
               (onThemeChanged (pending_env 1) demo_terminal light_colors (demo_layer None)))))
        = Some (ImageBitmap 10)
   \<and> charAtlas (promise_resolved 1 10 (promise_resolved 2 20
            (onThemeChanged (pending_env 2) demo_terminal demo_colors
               (onThemeChanged (pending_env 1) demo_terminal light_colors (demo_layer None)))))
        \<noteq> Some (ImageBitmap 20)"
  by (simp add: onThemeChanged_def refreshCharAtlas_def Let_def pending_env_def demo_layer_def
      promise_resolved_def)

text \<open>
  C4, amended. If two atlas refreshes are requested before either acquisition completes
  (two distinct promises), then after both completions have arrived the held atlas is
  the bitmap of the completion that arrived last: the second request's when its
  completion arrives last, the first request's when the first completion arrives after
  the second. No completion is discarded.
\<close>

theorem last_completion_wins:
  assumes "acquireCharAtlas E1 t1 (colors s) (scaledCharWidth s) (scaledCharHeight s) = ResultPromise p1"
    and "acquireCharAtlas E2 t2 (colors s) (scaledCharWidth s) (scaledCharHeight s) = ResultPromise p2"
    and "p1 \<noteq> p2"
  shows "charAtlas (promise_resolved p2 b2 (promise_resolved p1 b1
            (onThemeChanged E2 t2 c2 (onThemeChanged E1 t1 c1 s)))) = Some (ImageBitmap b2)
       \<and> charAtlas (promise_resolved p1 b1 (promise_resolved p2 b2
            (onThemeChanged E2 t2 c2 (onThemeChanged E1 t1 c1 s)))) = Some (ImageBitmap b1)"
  using assms(3)
  by (simp add: promise_resolved_def two_pending_refreshes [OF assms(1) assms(2)])

theorem last_completion_wins_witness:
  "acquireCharAtlas (pending_env 1) demo_terminal (colors (demo_layer None))
      (scaledCharWidth (demo_layer None)) (scaledCharHeight (demo_layer None)) = ResultPromise 1
   \<and> acquireCharAtlas (pending_env 2) demo_terminal (colors (demo_layer None))
      (scaledCharWidth (demo_layer None)) (scaledCharHeight (demo_layer None)) = ResultPromise 2
   \<and> (1::nat) \<noteq> 2
   \<and> charAtlas (promise_resolved 2 20 (promise_resolved 1 10
            (onThemeChanged (pending_env 2) demo_terminal demo_colors
               (onThemeChanged (pending_env 1) demo_terminal light_colors (demo_layer None)))))
        = Some (ImageBitmap 20)
   \<and> charAtlas (promise_resolved 1 10 (promise_resolved 2 20
            (onThemeChanged (pending_env 2) demo_terminal demo_colors
               (onThemeChanged (pending_env 1) demo_terminal light_colors (demo_layer None)))))
        = Some (ImageBitmap 10)"
proof -
  have a: "acquireCharAtlas (pending_env 1) demo_terminal (colors (demo_layer None))
      (scaledCharWidth (demo_layer None)) (scaledCharHeight (demo_layer None)) = ResultPromise 1"
    by (simp add: pending_env_def)
  have b: "acquireCharAtlas (pending_env 2) demo_terminal (colors (demo_layer None))
      (scaledCharWidth (demo_layer None)) (scaledCharHeight (demo_layer None)) = ResultPromise 2"
    by (simp add: pending_env_def)
  have c: "(1::nat) \<noteq> 2" by simp
  from last_completion_wins [OF a b c, of 20 10 demo_colors light_colors] a b c
  show ?thesis by simp
qed

text \<open>
  C7. For every resize with line-height multiplier \<open>m \<ge> 1\<close> (and a measured character
  height and pixel ratio that are sizes, so that their product is not negative, as the
  data model's positive \<open>scaledCharHeight\<close> requires), the resulting geometry satisfies
  \<open>scaledLineHeight \<ge> scaledCharHeight\<close>; and in every run that starts with such a
  resize and whose later resizes are of that kind too, the invariant holds after every
  operation (every method call and every promise callback).
\<close>

theorem line_height_invariant:
  assumes "list_all resize_ok ((E, Resize t w h b) # es)"
  shows "scaledLineHeight (resize E t w h b s) \<ge> scaledCharHeight (resize E t w h b s)
       \<and> geometry_ok (run (take (Suc n) ((E, Resize t w h b) # es)) s)"
proof -
  from assms have r: "resize_ok (E, Resize t w h b)" and rest: "list_all resize_ok es"
    by simp_all
  from r have g: "geometry_ok (resize E t w h b s)" by (simp add: resize_geometry_ok)
  from rest have "list_all resize_ok (take n es)" by (rule list_all_take)
  then have "geometry_ok (run (take n es) (resize E t w h b s))"
    using g by (rule run_geometry_ok)
  with g show ?thesis by (simp add: geometry_ok_def)
qed

theorem line_height_invariant_witness:
  "list_all resize_ok
     [(pending_env 1, Resize demo_terminal 800 600 True),
      (pending_env 1, DrawChar demo_terminal ''A'' 65 2 3 2 200 False),
      (pending_env 1, PromiseResolved 1 10),
      (ready_env 5, Resize demo_terminal 640 480 True)]
   \<and> scaledCharHeight (resize (pending_env 1) demo_terminal 800 600 True (demo_layer None)) = 30
   \<and> scaledLineHeight (resize (pending_env 1) demo_terminal 800 600 True (demo_layer None)) = 45
   \<and> geometry_ok (run (take (Suc 3)
       [(pending_env 1, Resize demo_terminal 800 600 True),
        (pending_env 1, DrawChar demo_terminal ''A'' 65 2 3 2 200 False),
        (pending_env 1, PromiseResolved 1 10),
        (ready_env 5, Resize demo_terminal 640 480 True)]) (demo_layer None))"
proof -
  have a: "list_all resize_ok
     ((pending_env 1, Resize demo_terminal 800 600 True) #
      [(pending_env 1, DrawChar demo_terminal ''A'' 65 2 3 2 200 False),
       (pending_env 1, PromiseResolved 1 10),
       (ready_env 5, Resize demo_terminal 640 480 True)])"
    by (simp add: demo_terminal_def pending_env_def ready_env_def)
  have h: "scaledCharHeight (resize (pending_env 1) demo_terminal 800 600 True (demo_layer None)) = 30"
    using demo_geometry by (simp add: resize_scaledCharHeight demo_terminal_def pending_env_def)
  have l: "scaledLineHeight (resize (pending_env 1) demo_terminal 800 600 True (demo_layer None)) = 45"
    using demo_geometry by (simp add: resize_scaledLineHeight demo_terminal_def pending_env_def)
  from line_height_invariant [OF a, of "demo_layer None" 3] a h l show ?thesis by simp
qed

text \<open>
  C9. Calling \<open>resize\<close> twice in succession with the same arguments (same canvas
  dimensions, terminal, device pixel ratio and flag) gives the same cell geometry as
  calling it once; with \<open>charSizeChanged = false\<close> the second call leaves the whole layer
  as the first call left it, and neither call acquires an atlas: the held atlas, the
  list of acquisitions and the list of awaited promises are those of the start.
\<close>

theorem resize_idempotent:
  assumes "devicePixelRatio E' = devicePixelRatio E"
  shows "CellGeometry (resize E' t w h b (resize E t w h b s)) = CellGeometry (resize E t w h b s)
       \<and> resize E' t w h False (resize E t w h False s) = resize E t w h False s
       \<and> charAtlas (resize E' t w h False (resize E t w h False s)) = charAtlas s
       \<and> acquired (resize E' t w h False (resize E t w h False s)) = acquired s
       \<and> awaiting (resize E' t w h False (resize E t w h False s)) = awaiting s"
proof -
  have g: "CellGeometry (resize E' t w h b (resize E t w h b s)) = CellGeometry (resize E t w h b s)"
    by (simp add: CellGeometry_def resize_scaledCharWidth resize_scaledCharHeight
        resize_scaledLineHeight resize_scaledLineDrawY assms)
  have i: "resize E' t w h False (resize E t w h False s) = resize E t w h False s"
    by (simp add: resize_def Let_def assms)
  have f: "charAtlas (resize E t w h False s) = charAtlas s"
    "acquired (resize E t w h False s) = acquired s"
    "awaiting (resize E t w h False s) = awaiting s"
    by (simp_all add: resize_def Let_def)
  from g i f show ?thesis by simp
qed

theorem resize_idempotent_witness:
  "devicePixelRatio (ready_env 5) = devicePixelRatio (pending_env 1)
   \<and> CellGeometry (resize (pending_env 1) demo_terminal 800 600 False (demo_layer (Some (ImageBitmap 3))))
       = (15, 30, 45, 8)
   \<and> CellGeometry (resize (ready_env 5) demo_terminal 800 600 False
        (resize (pending_env 1) demo_terminal 800 600 False (demo_layer (Some (ImageBitmap 3)))))
       = (15, 30, 45, 8)
   \<and> charAtlas (resize (ready_env 5) demo_terminal 800 600 False
        (resize (pending_env 1) demo_terminal 800 600 False (demo_layer (Some (ImageBitmap 3)))))
       = Some (ImageBitmap 3)"
proof -
  have a: "devicePixelRatio (ready_env 5) = devicePixelRatio (pending_env 1)"
    by (simp add: ready_env_def pending_env_def)
  have g: "CellGeometry (resize (pending_env 1) demo_terminal 800 600 False (demo_layer (Some (ImageBitmap 3))))
       = (15, 30, 45, 8)"
    using demo_geometry
    by (simp add: CellGeometry_def resize_scaledCharWidth resize_scaledCharHeight
        resize_scaledLineHeight resize_scaledLineDrawY demo_terminal_def pending_env_def)
  from resize_idempotent [OF a, of demo_terminal 800 600 False "demo_layer (Some (ImageBitmap 3))"] a g
  show ?thesis by (simp add: demo_layer_def charAtlas_resize_unchanged)
qed

end
